theory Spec2Isabelle
  imports Main "HOL-Library.Char_ord" "HOL-Library.List_Lexorder" "HOL-Library.Multiset"
begin

section \<open>Python values: exceptions, strings, dictionaries\<close>

text \<open>
  Exceptions are values. Every class below is a subclass of Python's \<open>Exception\<close>
  except \<open>SystemExit\<close>, which \<open>exit(1)\<close> raises and which derives from
  \<open>BaseException\<close> only.
\<close>

datatype py_error =
    KeyError string
  | TypeError string
  | ValueError string
  | OSError string
  | TemplateNotFound string
  | MqttError string
  | RuntimeError string
  | AttributeError string
  | SystemExit int



fun str_of_nat :: "nat \<Rightarrow> string" where
  "str_of_nat n =
     (if n < 10 then [char_of (48 + n)]
      else str_of_nat (n div 10) @ [char_of (48 + n mod 10)])"

declare str_of_nat.simps [simp del]

definition str_of_int :: "int \<Rightarrow> string" where
  "str_of_int i = (if i < 0 then CHR ''-'' # str_of_nat (nat (- i)) else str_of_nat (nat i))"


text \<open>\<open>s.startswith(p)\<close> and \<open>s.replace('!', '')\<close> (every occurrence is removed).\<close>

definition startswith :: "string \<Rightarrow> string \<Rightarrow> bool" where
  "startswith s p = (take (length p) s = p)"

definition replace_bang :: "string \<Rightarrow> string" where
  "replace_bang s = filter (\<lambda>c. c \<noteq> CHR ''!'') s"

text \<open>
  A \<open>dict\<close> with string keys is an association list in insertion order (Python dicts
  iterate in insertion order). \<open>d[k]\<close> raises \<open>KeyError\<close> on a missing key;
  \<open>d[k] = v\<close> overwrites in place or appends.
\<close>

fun dict_getitem :: "(string \<times> 'v) list \<Rightarrow> string \<Rightarrow> py_error + 'v" where
  "dict_getitem [] k = Inl (KeyError k)"
| "dict_getitem ((k', v) # d) k = (if k' = k then Inr v else dict_getitem d k)"

fun dict_setitem :: "string \<Rightarrow> 'v \<Rightarrow> (string \<times> 'v) list \<Rightarrow> (string \<times> 'v) list" where
  "dict_setitem k v [] = [(k, v)]"
| "dict_setitem k v ((k', v') # d) =
     (if k' = k then (k, v) # d else (k', v') # dict_setitem k v d)"

definition dict_contains :: "string \<Rightarrow> (string \<times> 'v) list \<Rightarrow> bool" where
  "dict_contains k d = (k \<in> set (map fst d))"

section \<open>JSON values and \<open>json.dump(data, f, indent=2, sort_keys=True, cls=_JSONEncoder)\<close>\<close>

text \<open>
  The data handed to the exporter. \<open>JOther\<close> stands for any object the standard encoder
  does not know (timestamps, floats and the like); such an object goes through the
  \<open>default\<close> hook of \<open>_JSONEncoder\<close>, a class of module \<open>encoders\<close> that is not part of
  the sources. The hook is a parameter \<open>dflt\<close>: the JSON text emitted for the object, or
  \<open>None\<close> when the hook raises \<open>TypeError\<close>.
\<close>

datatype 'a json =
    JNull
  | JBool bool
  | JInt int
  | JStr string
  | JOther 'a
  | JList "'a json list"
  | JDict "(string \<times> 'a json) list"

text \<open>
  What an encoder run has written so far, and the exception that stopped it, if any:
  \<open>json.dump\<close> writes chunk after chunk, so the text before a failure is on the file.
\<close>

type_synonym emitted = "string \<times> py_error option"

definition emit :: "string \<Rightarrow> emitted" where
  "emit s = (s, None)"

definition raise :: "py_error \<Rightarrow> emitted" where
  "raise e = ([], Some e)"

fun seq :: "emitted \<Rightarrow> emitted \<Rightarrow> emitted" where
  "seq (s, Some e) _ = (s, Some e)"
| "seq (s, None) (t, r) = (s @ t, r)"

fun join_items :: "string \<Rightarrow> emitted list \<Rightarrow> emitted" where
  "join_items sep [] = emit []"
| "join_items sep [x] = x"
| "join_items sep (x # y # ys) = seq x (seq (emit sep) (join_items sep (y # ys)))"

definition hex_digit :: "nat \<Rightarrow> char" where
  "hex_digit n = (if n < 10 then char_of (48 + n) else char_of (87 + n))"

text \<open>\<open>json.encoder.encode_basestring_ascii\<close>, for the code points a \<open>char\<close> holds.\<close>

definition escape_char :: "char \<Rightarrow> string" where
  "escape_char c =
     (let n = (of_char c :: nat) in
      if c = CHR 0x22 then [CHR 0x5C, CHR 0x22]
      else if c = CHR 0x5C then [CHR 0x5C, CHR 0x5C]
      else if c = CHR 0x0A then [CHR 0x5C, CHR ''n'']
      else if c = CHR 0x0D then [CHR 0x5C, CHR ''r'']
      else if c = CHR 0x09 then [CHR 0x5C, CHR ''t'']
      else if c = CHR 0x08 then [CHR 0x5C, CHR ''b'']
      else if c = CHR 0x0C then [CHR 0x5C, CHR ''f'']
      else if 32 \<le> n \<and> n \<le> 126 then [c]
      else [CHR 0x5C, CHR ''u'', CHR ''0'', CHR ''0'', hex_digit (n div 16), hex_digit (n mod 16)])"

definition encode_basestring_ascii :: "string \<Rightarrow> string" where
  "encode_basestring_ascii s = CHR 0x22 # concat (map escape_char s) @ [CHR 0x22]"

definition newline_indent :: "nat \<Rightarrow> string" where
  "newline_indent level = CHR 0x0A # replicate (2 * level) (CHR '' '')"

text \<open>
  The encoder with \<open>indent=2\<close> (item separator \<open>","\<close>, key separator \<open>": "\<close>) and
  \<open>sort_keys=True\<close> (\<open>items = sorted(dct.items())\<close>; keys are strings, compared by code
  point).
\<close>

fun iterencode :: "('a \<Rightarrow> string option) \<Rightarrow> nat \<Rightarrow> 'a json \<Rightarrow> emitted" where
  "iterencode dflt lvl JNull = emit ''null''"
| "iterencode dflt lvl (JBool b) = emit (if b then ''true'' else ''false'')"
| "iterencode dflt lvl (JInt i) = emit (str_of_int i)"
| "iterencode dflt lvl (JStr s) = emit (encode_basestring_ascii s)"
| "iterencode dflt lvl (JOther a) =
     (case dflt a of
        None \<Rightarrow> raise (TypeError ''Object is not JSON serializable'')
      | Some t \<Rightarrow> emit t)"
| "iterencode dflt lvl (JList xs) =
     (if xs = [] then emit ''[]''
      else seq (emit (''['' @ newline_indent (Suc lvl)))
             (seq (join_items ('','' @ newline_indent (Suc lvl))
                     (map (iterencode dflt (Suc lvl)) xs))
                (emit (newline_indent lvl @ '']''))))"
| "iterencode dflt lvl (JDict d) =
     (if d = [] then emit ''{}''
      else seq (emit (''{'' @ newline_indent (Suc lvl)))
             (seq (join_items ('','' @ newline_indent (Suc lvl))
                     (map (\<lambda>(k, v). seq (emit (encode_basestring_ascii k @ '': ''))
                                       (iterencode dflt (Suc lvl) v))
                        (sort_key fst d)))
                (emit (newline_indent lvl @ ''}''))))"

definition json_dump :: "('a \<Rightarrow> string option) \<Rightarrow> 'a json \<Rightarrow> emitted" where
  "json_dump dflt data = iterencode dflt 0 data"

fun json_getitem :: "'a json \<Rightarrow> string \<Rightarrow> py_error + 'a json" where
  "json_getitem (JDict d) k = dict_getitem d k"
| "json_getitem _ k = Inl (TypeError ''object is not subscriptable'')"

fun json_len :: "'a json \<Rightarrow> py_error + nat" where
  "json_len (JList xs) = Inr (length xs)"
| "json_len (JDict d) = Inr (length d)"
| "json_len (JStr s) = Inr (length s)"
| "json_len _ = Inl (TypeError ''object has no len()'')"

section \<open>The world: files, file-system calls, the log\<close>

datatype fs_op = OpenW string | Write string string | Replace string string

datatype level = DEBUG | INFO | WARNING | ERROR

record world =
  files :: "string \<rightharpoonup> string"
  syscalls :: "fs_op list"
  log :: "(level \<times> string) list"

text \<open>
  Which file-system calls fail is the environment's choice: \<open>open_fails p\<close> (opening
  \<open>p\<close> for writing raises \<open>OSError\<close>), \<open>write_capacity p = Some k\<close> (writing to \<open>p\<close>
  raises \<open>OSError\<close> after \<open>k\<close> characters), \<open>replace_fails src dst\<close>.
\<close>

record io =
  open_fails :: "string \<Rightarrow> bool"
  write_capacity :: "string \<Rightarrow> nat option"
  replace_fails :: "string \<Rightarrow> string \<Rightarrow> bool"

definition logging :: "level \<Rightarrow> string \<Rightarrow> world \<Rightarrow> world" where
  "logging lv msg w = w\<lparr>log := log w @ [(lv, msg)]\<rparr>"

definition fs_open_w :: "string \<Rightarrow> world \<Rightarrow> world" where
  "fs_open_w p w = w\<lparr>files := (files w)(p \<mapsto> []), syscalls := syscalls w @ [OpenW p]\<rparr>"

definition fs_write :: "string \<Rightarrow> string \<Rightarrow> world \<Rightarrow> world" where
  "fs_write p s w =
     w\<lparr>files := (files w)(p \<mapsto> (case files w p of None \<Rightarrow> s | Some old \<Rightarrow> old @ s)),
       syscalls := syscalls w @ [Write p s]\<rparr>"

definition fs_replace :: "string \<Rightarrow> string \<Rightarrow> world \<Rightarrow> world" where
  "fs_replace src dst w =
     w\<lparr>files := ((files w)(dst := files w src))(src := None),
       syscalls := syscalls w @ [Replace src dst]\<rparr>"

type_synonym 'r result = "(py_error + 'r) \<times> world"

definition bind :: "'r result \<Rightarrow> ('r \<Rightarrow> world \<Rightarrow> 's result) \<Rightarrow> 's result" where
  "bind m f = (case m of (Inl e, w) \<Rightarrow> (Inl e, w) | (Inr r, w) \<Rightarrow> f r w)"

section \<open>Configuration and the Store\<close>

datatype cfg_value = CNone | CStr string | CList "string list" | CInt int

record broker_config =
  host :: string
  port :: int
  topics :: "cfg_value option"
  topic :: "cfg_value option"

record config =
  paths_data :: string
  paths_output :: string
  paths_templates :: string
  server_node_id :: string
  broker :: broker_config

text \<open>
  The shared data object \<open>self.data\<close>. The exporter sees nodes and logs as JSON data
  (\<open>'n = 'a json\<close>); the page renderer reads the fields of a node (\<open>'n\<close> is the node
  record below). Logs and other payloads are JSON data in both.
\<close>

record ('n, 'x) store =
  nodes :: "(string \<times> 'n) list"
  chat :: 'x
  telemetry :: 'x
  traceroutes :: 'x
  messages :: 'x
  mqtt_messages :: 'x
  graph :: 'x
  mqtt_connect_time :: 'x

section \<open>\<open>data_renderer.py\<close>: class \<open>DataRenderer\<close>\<close>

definition swp_path :: "config \<Rightarrow> string \<Rightarrow> string" where
  "swp_path cfg filename = paths_data cfg @ ''/'' @ filename @ ''.swp''"

definition final_path :: "config \<Rightarrow> string \<Rightarrow> string" where
  "final_path cfg filename = paths_data cfg @ ''/'' @ filename"

text \<open>
  \<open>save_file\<close>: \<open>open(swp, "w")\<close>, \<open>json.dump\<close> into it, then
  \<open>os.replace(swp, final)\<close>. Nothing is caught: the first exception leaves the function.
\<close>

definition DataRenderer_save_file ::
  "io \<Rightarrow> config \<Rightarrow> ('a \<Rightarrow> string option) \<Rightarrow> string \<Rightarrow> 'a json \<Rightarrow> world \<Rightarrow> unit result" where
  "DataRenderer_save_file env cfg dflt filename data w =
     (let w0 = logging INFO (''Saving '' @ filename) w;
          swp = swp_path cfg filename;
          final = final_path cfg filename
      in if open_fails env swp then (Inl (OSError swp), w0)
         else
           (let w1 = fs_open_w swp w0;
                (text, err) = json_dump dflt data;
                disk_full = (case write_capacity env swp of
                               Some k \<Rightarrow> k < length text
                             | None \<Rightarrow> False)
            in if disk_full
               then (Inl (OSError swp),
                     fs_write swp (take (the (write_capacity env swp)) text) w1)
               else
                 (case err of
                    Some e \<Rightarrow> (Inl e, fs_write swp text w1)
                  | None \<Rightarrow>
                      if replace_fails env swp final
                      then (Inl (OSError final), fs_write swp text w1)
                      else (Inr (), fs_replace swp final (fs_write swp text w1)))))"

text \<open>
  The loop of \<open>_render\<close> that builds the exported node dict: lines 24 to 30. The first
  argument is the local dict \<open>nodes\<close> built so far (here \<open>out\<close>).
\<close>

fun export_nodes :: "(string \<times> 'n) list \<Rightarrow> (string \<times> 'n) list \<Rightarrow> (string \<times> 'n) list" where
  "export_nodes out [] = out"
| "export_nodes out ((id0, node) # items) =
     (let id1 = (if startswith id0 ''!'' then replace_bang id0 else id0)
      in if length id1 \<noteq> 8 then export_nodes out items
         else export_nodes (dict_setitem id1 node out) items)"

definition chat_message_count :: "'a json \<Rightarrow> py_error + nat" where
  "chat_message_count c =
     (case json_getitem c ''channels'' of
        Inl e \<Rightarrow> Inl e
      | Inr chans \<Rightarrow>
          (case json_getitem chans ''0'' of
             Inl e \<Rightarrow> Inl e
           | Inr ch \<Rightarrow>
               (case json_getitem ch ''messages'' of
                  Inl e \<Rightarrow> Inl e
                | Inr ms \<Rightarrow> json_len ms)))"

definition log_saved :: "config \<Rightarrow> py_error + nat \<Rightarrow> string \<Rightarrow> string \<Rightarrow> world \<Rightarrow> unit result" where
  "log_saved cfg cnt what filename w =
     (case cnt of
        Inl e \<Rightarrow> (Inl e, w)
      | Inr n \<Rightarrow>
          (Inr (), logging INFO (''Saved '' @ str_of_nat n @ '' '' @ what @ '' to file (''
                                  @ final_path cfg filename @ '')'') w))"

definition DataRenderer_render ::
  "io \<Rightarrow> config \<Rightarrow> ('a \<Rightarrow> string option) \<Rightarrow> ('a json, 'a json) store \<Rightarrow> world \<Rightarrow> unit result" where
  "DataRenderer_render env cfg dflt data w =
     bind (DataRenderer_save_file env cfg dflt ''chat.json'' (chat data) w) (\<lambda>_ w.
     bind (log_saved cfg (chat_message_count (chat data)) ''chat messages'' ''chat.json'' w) (\<lambda>_ w.
     (let exported = export_nodes [] (nodes data) in
     bind (DataRenderer_save_file env cfg dflt ''nodes.json'' (JDict exported) w) (\<lambda>_ w.
     bind (log_saved cfg (Inr (length exported)) ''nodes'' ''nodes.json'' w) (\<lambda>_ w.
     bind (DataRenderer_save_file env cfg dflt ''telemetry.json'' (telemetry data) w) (\<lambda>_ w.
     bind (log_saved cfg (json_len (telemetry data)) ''telemetry'' ''telemetry.json'' w) (\<lambda>_ w.
     bind (DataRenderer_save_file env cfg dflt ''traceroutes.json'' (traceroutes data) w) (\<lambda>_ w.
     log_saved cfg (json_len (traceroutes data)) ''traceroutes'' ''traceroutes.json'' w))))))))"

text \<open>
  The specification's words for a well-formed id: after stripping a leading sigil, exactly eight
  hexadecimal characters.
\<close>

definition is_hex_char :: "char \<Rightarrow> bool" where
  "is_hex_char c = (c \<in> set ''0123456789abcdefABCDEF'')"

definition strip_sigil :: "string \<Rightarrow> string" where
  "strip_sigil s = (if startswith s ''!'' then drop 1 s else s)"

definition valid_node_id :: "string \<Rightarrow> bool" where
  "valid_node_id s = (length (strip_sigil s) = 8 \<and> list_all is_hex_char (strip_sigil s))"

section \<open>Nodes as the page renderer reads them\<close>

text \<open>
  A node is a dict. The keys the renderer tests with \<open>in\<close> before reading them may be
  missing (\<open>role\<close>, \<open>active\<close>, \<open>position\<close>, \<open>neighborinfo\<close>, and inside them
  \<open>latitude_i\<close>, \<open>longitude_i\<close>, \<open>neighbors\<close>); the other keys are taken to be present,
  with values of the types the handler stores. A key that is present may hold \<open>None\<close>.
  The key \<open>id\<close> is the field \<open>ident\<close> (a \<open>str\<close>), the key \<open>telemetry\<close> of a node is
  \<open>node_telemetry\<close>.
\<close>

datatype 'v field = Missing | PyNone | Value 'v

fun getfield :: "string \<Rightarrow> 'v field \<Rightarrow> py_error + 'v option" where
  "getfield k Missing = Inl (KeyError k)"
| "getfield k PyNone = Inr None"
| "getfield k (Value v) = Inr (Some v)"

fun has_key :: "'v field \<Rightarrow> bool" where
  "has_key Missing = False"
| "has_key _ = True"

text \<open>A position is a dict of scaled integers (\<open>latitude_i\<close>, \<open>longitude_i\<close>, ...).\<close>

type_synonym position = "(string \<times> int) list"

fun truthy :: "('k \<times> 'v) list option \<Rightarrow> bool" where
  "truthy None = False"
| "truthy (Some d) = (d \<noteq> [])"

record 'a neighbor =
  node_id :: int
  snr :: "'a json"

record 'a neighborinfo =
  neighbors :: "'a neighbor list option"
  other_items :: "(string \<times> 'a json) list"

fun truthy_neighborinfo :: "'a neighborinfo option \<Rightarrow> bool" where
  "truthy_neighborinfo None = False"
| "truthy_neighborinfo (Some ni) = (neighbors ni \<noteq> None \<or> other_items ni \<noteq> [])"

text \<open>
  A \<open>datetime\<close> is an instant that either carries a time zone (\<open>Aware\<close>) or does not
  (\<open>Naive\<close>). The key \<open>last_seen\<close> holds a \<open>datetime\<close> or an ISO string.
\<close>

datatype datetime = Aware int | Naive int

datatype timestamp = Datetime datetime | IsoString string

record 'a node =
  ident :: string
  shortname :: string
  longname :: string
  hardware :: "'a json"
  role :: "'a json option"
  position :: "position field"
  neighborinfo :: "'a neighborinfo field"
  node_telemetry :: "'a json"
  last_seen :: timestamp
  active :: "bool option"

text \<open>
  What the renderer takes from outside the sources: module \<open>geo\<close>, module \<open>utils\<close>, the
  clock (\<open>now\<close> is \<open>datetime.now(ZoneInfo(...))\<close>, an aware instant), \<open>datetime\<close> parsing
  (\<open>fromisoformat\<close>) and printing (\<open>isoformat d\<close> is \<open>d.astimezone().isoformat()\<close>), and
  floating point (\<open>x / 10000000\<close> is
  \<open>truediv x\<close>, \<open>round(x, 2)\<close> is \<open>round2 x\<close>) over a type \<open>'f\<close> of floats.
\<close>

record 'f externals =
  truediv :: "int \<Rightarrow> 'f"
  distance_between_two_points :: "'f \<Rightarrow> 'f \<Rightarrow> 'f \<Rightarrow> 'f \<Rightarrow> 'f"
  round2 :: "'f \<Rightarrow> 'f"
  convert_node_id_from_int_to_hex :: "int \<Rightarrow> string"
  now :: int
  fromisoformat :: "string \<Rightarrow> datetime option"
  isoformat :: "datetime \<Rightarrow> string"

text \<open>
  Serialized values. In \<open>sn_distance\<close> and \<open>distance_from_host_node\<close>, \<open>None\<close> means
  that the dict has no such key; in \<open>s_role\<close>, \<open>s_position\<close>, \<open>s_neighborinfo\<close> and
  \<open>s_neighbors\<close> it is Python's \<open>None\<close> under a key that is present.
\<close>

type_synonym 'f s_position = "(string \<times> (int + 'f)) list"

record ('a, 'f) s_neighbor =
  sn_node_id :: string
  sn_snr :: "'a json"
  sn_distance :: "'f option"

record ('a, 'f) s_neighborinfo =
  s_neighbors :: "('a, 'f) s_neighbor list option"
  s_other_items :: "(string \<times> 'a json) list"

record ('a, 'f) s_node =
  s_id :: string
  s_shortname :: string
  s_longname :: string
  s_hardware :: "'a json"
  s_role :: "'a json option"
  s_position :: "'f s_position option"
  s_neighborinfo :: "('a, 'f) s_neighborinfo option"
  s_telemetry :: "'a json"
  s_last_seen_human :: string
  s_last_seen :: datetime
  s_since :: int
  distance_from_host_node :: "'f option"

text \<open>
  \<open>Full nd s\<close> is \<open>result = node.copy(); result.update(serialized)\<close>: every key of
  \<open>s\<close> with the value of \<open>s\<close>, the remaining keys of the node with the node's value.
\<close>

datatype ('a, 'f) view_node = Simplified "('a, 'f) s_node" | Full "'a node" "('a, 'f) s_node"


section \<open>\<open>static_html_renderer.py\<close>: serialization\<close>

definition serialize_position :: "'f externals \<Rightarrow> position \<Rightarrow> 'f s_position" where
  "serialize_position ext pos =
     (let s_pos = map (\<lambda>(k, v). (k, Inl v)) pos
      in case (map_of pos ''latitude_i'', map_of pos ''longitude_i'') of
           (Some la, Some lo) \<Rightarrow>
             dict_setitem ''longitude'' (Inr (truediv ext lo))
               (dict_setitem ''latitude'' (Inr (truediv ext la)) s_pos)
         | _ \<Rightarrow> s_pos)"

text \<open>The body of the loop of \<open>_serialize_neighborinfo_neighbors\<close>: lines 276 to 290.\<close>

definition serialize_neighbor ::
  "'f externals \<Rightarrow> (string \<times> 'a node) list \<Rightarrow> 'a node \<Rightarrow> 'a neighbor
     \<Rightarrow> py_error + ('a, 'f) s_neighbor" where
  "serialize_neighbor ext nds from_node n =
     (let id1 = convert_node_id_from_int_to_hex ext (node_id n);
          nb = \<lparr>sn_node_id = id1, sn_snr = snr n, sn_distance = None\<rparr>
      in if dict_contains id1 nds then
           (case dict_getitem nds id1 of
              Inl e \<Rightarrow> Inl e
            | Inr ni \<Rightarrow>
                (case getfield ''position'' (position from_node) of
                   Inl e \<Rightarrow> Inl e
                 | Inr fp \<Rightarrow>
                     if \<not> truthy fp then Inr nb
                     else
                       (case getfield ''position'' (position ni) of
                          Inl e \<Rightarrow> Inl e
                        | Inr np \<Rightarrow>
                            if \<not> truthy np then Inr nb
                            else
                              (case (map_of (the fp) ''latitude_i'', map_of (the fp) ''longitude_i'',
                                     map_of (the np) ''latitude_i'', map_of (the np) ''longitude_i'') of
                                 (Some fla, Some flo, Some nla, Some nlo) \<Rightarrow>
                                   Inr (nb\<lparr>sn_distance := Some (round2 ext
                                     (distance_between_two_points ext
                                        (truediv ext fla) (truediv ext flo)
                                        (truediv ext nla) (truediv ext nlo)))\<rparr>)
                               | _ \<Rightarrow> Inr nb))))
         else Inr nb)"

fun serialize_neighbors_loop ::
  "'f externals \<Rightarrow> (string \<times> 'a node) list \<Rightarrow> 'a node \<Rightarrow> ('a, 'f) s_neighbor list
     \<Rightarrow> 'a neighbor list \<Rightarrow> py_error + ('a, 'f) s_neighbor list" where
  "serialize_neighbors_loop ext nds from_node ns [] = Inr ns"
| "serialize_neighbors_loop ext nds from_node ns (n # rest) =
     (case serialize_neighbor ext nds from_node n of
        Inl e \<Rightarrow> Inl e
      | Inr nb \<Rightarrow> serialize_neighbors_loop ext nds from_node (ns @ [nb]) rest)"

definition serialize_neighborinfo_neighbors ::
  "'f externals \<Rightarrow> (string \<times> 'a node) list \<Rightarrow> 'a node
     \<Rightarrow> py_error + ('a, 'f) s_neighbor list" where
  "serialize_neighborinfo_neighbors ext nds nd =
     (case dict_getitem nds (ident nd) of
        Inl e \<Rightarrow> Inl e
      | Inr from_node \<Rightarrow>
          (case neighborinfo nd of
             Missing \<Rightarrow> Inl (KeyError ''neighborinfo'')
           | PyNone \<Rightarrow> Inl (TypeError ''NoneType object is not subscriptable'')
           | Value ni \<Rightarrow>
               (case neighbors ni of
                  None \<Rightarrow> Inl (KeyError ''neighbors'')
                | Some ns \<Rightarrow> serialize_neighbors_loop ext nds from_node [] ns)))"

definition serialize_neighborinfo ::
  "'f externals \<Rightarrow> (string \<times> 'a node) list \<Rightarrow> 'a node
     \<Rightarrow> py_error + ('a, 'f) s_neighborinfo" where
  "serialize_neighborinfo ext nds nd =
     (case neighborinfo nd of
        Missing \<Rightarrow> Inl (KeyError ''neighborinfo'')
      | PyNone \<Rightarrow> Inl (AttributeError ''NoneType object has no attribute copy'')
      | Value ni \<Rightarrow>
          (case neighbors ni of
             None \<Rightarrow> Inr \<lparr>s_neighbors = None, s_other_items = other_items ni\<rparr>
           | Some _ \<Rightarrow>
               (case serialize_neighborinfo_neighbors ext nds nd of
                  Inl e \<Rightarrow> Inl e
                | Inr ns \<Rightarrow> Inr \<lparr>s_neighbors = Some ns, s_other_items = other_items ni\<rparr>)))"

text \<open>
  The three nested conditions of lines 241 to 243 of \<open>_serialize_node\<close>, for a target
  node whose key \<open>position\<close> is present (line 233 has read it by then). A node is never
  an empty dict, so \<open>server_node\<close> and \<open>node\<close> themselves are true.
\<close>

definition host_distance ::
  "'f externals \<Rightarrow> 'a node \<Rightarrow> position option \<Rightarrow> 'f option" where
  "host_distance ext server_node node_pos =
     (if has_key (position server_node) then
        (case position server_node of
           Value sp \<Rightarrow>
             (if sp \<noteq> [] \<and> map_of sp ''latitude_i'' \<noteq> None \<and> map_of sp ''longitude_i'' \<noteq> None
                 \<and> truthy node_pos \<and> map_of (the node_pos) ''latitude_i'' \<noteq> None
                 \<and> map_of (the node_pos) ''longitude_i'' \<noteq> None
              then
                (if the (map_of sp ''latitude_i'') \<noteq> 0 \<and> the (map_of sp ''longitude_i'') \<noteq> 0
                    \<and> truthy node_pos
                    \<and> the (map_of (the node_pos) ''latitude_i'') \<noteq> 0
                    \<and> the (map_of (the node_pos) ''longitude_i'') \<noteq> 0
                 then Some (round2 ext (distance_between_two_points ext
                        (truediv ext (the (map_of (the node_pos) ''latitude_i'')))
                        (truediv ext (the (map_of (the node_pos) ''longitude_i'')))
                        (truediv ext (the (map_of sp ''latitude_i'')))
                        (truediv ext (the (map_of sp ''longitude_i'')))))
                 else None)
              else None)
         | _ \<Rightarrow> None)
      else None)"

text \<open>
  \<open>_serialize_node\<close>. The argument \<open>current_time\<close>, when given, is the aware instant
  \<open>render_nodes\<close> passes; the dict display of lines 227 to 239 is evaluated in order, so
  \<open>current_time - last_seen\<close> (line 238), which raises \<open>TypeError\<close> for a naive
  \<open>last_seen\<close>, comes after the position and the neighborinfo and before the lookup of
  the server node (line 240).
\<close>

definition serialize_node ::
  "'f externals \<Rightarrow> config \<Rightarrow> (string \<times> 'a node) list \<Rightarrow> 'a node \<Rightarrow> int option \<Rightarrow> bool
     \<Rightarrow> py_error + ('a, 'f) view_node" where
  "serialize_node ext cfg nds nd current_time simplified =
     (let ct = (case current_time of Some t \<Rightarrow> t | None \<Rightarrow> now ext) in
      case (case last_seen nd of
              Datetime t \<Rightarrow> Inr t
            | IsoString str \<Rightarrow>
                (case fromisoformat ext str of
                   None \<Rightarrow> Inl (ValueError (''Invalid isoformat string: '' @ str))
                 | Some t \<Rightarrow> Inr t)) of
        Inl e \<Rightarrow> Inl e
      | Inr seen \<Rightarrow>
     (case getfield ''position'' (position nd) of
        Inl e \<Rightarrow> Inl e
      | Inr node_pos \<Rightarrow>
     (case getfield ''neighborinfo'' (neighborinfo nd) of
        Inl e \<Rightarrow> Inl e
      | Inr node_ni \<Rightarrow>
     (case (if truthy_neighborinfo node_ni
            then (case serialize_neighborinfo ext nds nd of
                    Inl e \<Rightarrow> Inl e | Inr sni \<Rightarrow> Inr (Some sni))
            else Inr None) of
        Inl e \<Rightarrow> Inl e
      | Inr sni \<Rightarrow>
     (case (case seen of
              Aware t \<Rightarrow> Inr (ct - t)
            | Naive t \<Rightarrow>
                Inl (TypeError (''can'' @ [CHR 0x27]
                       @ ''t subtract offset-naive and offset-aware datetimes''))) of
        Inl e \<Rightarrow> Inl e
      | Inr since \<Rightarrow>
     (let ser = \<lparr>s_id = replace_bang (ident nd),
                 s_shortname = shortname nd,
                 s_longname = longname nd,
                 s_hardware = hardware nd,
                 s_role = role nd,
                 s_position = (if truthy node_pos
                               then Some (serialize_position ext (the node_pos)) else None),
                 s_neighborinfo = sni,
                 s_telemetry = node_telemetry nd,
                 s_last_seen_human = isoformat ext seen,
                 s_last_seen = seen,
                 s_since = since,
                 distance_from_host_node = None\<rparr>
      in case dict_getitem nds (server_node_id cfg) of
           Inl e \<Rightarrow> Inl e
         | Inr server_node \<Rightarrow>
             (let ser' = (case host_distance ext server_node node_pos of
                            None \<Rightarrow> ser
                          | Some dist \<Rightarrow> ser\<lparr>distance_from_host_node := Some dist\<rparr>)
              in if simplified then Inr (Simplified ser') else Inr (Full nd ser'))))))))"

section \<open>\<open>static_html_renderer.py\<close>: templates and page builders\<close>

text \<open>
  The keyword arguments a page builder hands to its template. Modules and classes handed
  over (\<open>geo\<close>, \<open>json\<close>, ...) are named only. The template engine is outside the sources:
  \<open>tpl path kwargs\<close> says whether \<open>get_template\<close> finds the template and what
  \<open>template.render\<close> does.
\<close>

datatype ('a, 'f) kwarg =
    KNodes "(string \<times> 'a node) list"
  | KSerialized "(string \<times> ('a, 'f) view_node) list"
  | KViewNode "('a, 'f) view_node"
  | KNode "'a node"
  | KJson "'a json"
  | KStats "(string \<times> nat) list"
  | KTime int
  | KModule string

datatype template_result = NoTemplate | RenderFails string | Html string

type_synonym ('a, 'f) engine = "string \<Rightarrow> (string \<times> ('a, 'f) kwarg) list \<Rightarrow> template_result"

definition StaticHTMLRenderer_save_file ::
  "io \<Rightarrow> config \<Rightarrow> string \<Rightarrow> string \<Rightarrow> world \<Rightarrow> unit result" where
  "StaticHTMLRenderer_save_file env cfg filename content w =
     (let path = paths_output cfg @ ''/'' @ filename
      in if open_fails env path then (Inl (OSError path), w)
         else
           (let w1 = fs_open_w path w
            in case write_capacity env path of
                 Some k \<Rightarrow>
                   if k < length content then (Inl (OSError path), fs_write path (take k content) w1)
                   else (Inr (), fs_write path content w1)
               | None \<Rightarrow> (Inr (), fs_write path content w1)))"

definition render_html ::
  "('a, 'f) engine \<Rightarrow> config \<Rightarrow> string \<Rightarrow> (string \<times> ('a, 'f) kwarg) list \<Rightarrow> world
     \<Rightarrow> string option result" where
  "render_html tpl cfg template_file kwargs w =
     (let template_file' = (if startswith template_file ''node_'' then ''node.html''
                            else template_file);
          path = paths_templates cfg @ ''/static'' @ ''/'' @ template_file' @ ''.j2''
      in case tpl path kwargs of
           NoTemplate \<Rightarrow> (Inl (TemplateNotFound path), w)
         | RenderFails m \<Rightarrow> (Inr None, logging ERROR (''Could not render template: '' @ m) w)
         | Html html \<Rightarrow> (Inr (Some html), w))"

definition render_html_and_save ::
  "io \<Rightarrow> ('a, 'f) engine \<Rightarrow> 'f externals \<Rightarrow> config \<Rightarrow> string
     \<Rightarrow> (string \<times> ('a, 'f) kwarg) list \<Rightarrow> world \<Rightarrow> unit result" where
  "render_html_and_save env tpl ext cfg filename kwargs w =
     bind (render_html tpl cfg filename
             ([(''config'', KModule ''config''), (''datetime'', KModule ''datetime''),
               (''timestamp'', KTime (now ext)), (''utils'', KModule ''utils''),
               (''zoneinfo'', KModule ''zoneinfo'')] @ kwargs)
             (logging DEBUG (''Rendering '' @ filename) w))
       (\<lambda>html w. case html of
                    None \<Rightarrow> (Inr (), w)
                  | Some h \<Rightarrow> if h \<noteq> [] then StaticHTMLRenderer_save_file env cfg filename h w
                              else (Inr (), w))"



definition render_index_kwargs :: "('a node, 'a json) store \<Rightarrow> (string \<times> ('a, 'f) kwarg) list" where
  "render_index_kwargs data =
     [(''nodes'', KNodes (nodes data)), (''active_nodes'', KNodes (nodes data))]"

definition render_routes_kwargs :: "('a node, 'a json) store \<Rightarrow> (string \<times> ('a, 'f) kwarg) list" where
  "render_routes_kwargs data =
     [(''nodes'', KNodes (nodes data)), (''active_nodes'', KNodes (nodes data))]"




definition render_map ::
  "io \<Rightarrow> ('a, 'f) engine \<Rightarrow> 'f externals \<Rightarrow> config \<Rightarrow> ('a node, 'a json) store \<Rightarrow> world
     \<Rightarrow> unit result" where
  "render_map env tpl ext cfg data w =
     (case dict_getitem (nodes data) (server_node_id cfg) of
        Inl e \<Rightarrow> (Inl e, w)
      | Inr server_node \<Rightarrow>
          render_html_and_save env tpl ext cfg ''map.html''
            [(''server_node'', KNode server_node), (''nodes'', KNodes (nodes data)),
             (''timedelta'', KModule ''datetime.timedelta'')] w)"



text \<open>
  The loops of \<open>render_neighbors\<close> (lines 132 to 135) and \<open>render_nodes\<close> (lines 148 to
  152): the first argument is the dict built so far.
\<close>

fun active_nodes_with_neighbors_loop ::
  "'f externals \<Rightarrow> config \<Rightarrow> (string \<times> 'a node) list \<Rightarrow> (string \<times> ('a, 'f) view_node) list
     \<Rightarrow> (string \<times> 'a node) list \<Rightarrow> py_error + (string \<times> ('a, 'f) view_node) list" where
  "active_nodes_with_neighbors_loop ext cfg nds out [] = Inr out"
| "active_nodes_with_neighbors_loop ext cfg nds out ((id0, nd) # items) =
     (if active nd = Some True \<and> has_key (neighborinfo nd)
         \<and> (case neighborinfo nd of Value ni \<Rightarrow> truthy_neighborinfo (Some ni) | _ \<Rightarrow> False)
      then (case serialize_node ext cfg nds nd None True of
              Inl e \<Rightarrow> Inl e
            | Inr v \<Rightarrow> active_nodes_with_neighbors_loop ext cfg nds (dict_setitem id0 v out) items)
      else active_nodes_with_neighbors_loop ext cfg nds out items)"

fun active_nodes_loop ::
  "'f externals \<Rightarrow> config \<Rightarrow> (string \<times> 'a node) list \<Rightarrow> int
     \<Rightarrow> (string \<times> ('a, 'f) view_node) list
     \<Rightarrow> (string \<times> 'a node) list \<Rightarrow> py_error + (string \<times> ('a, 'f) view_node) list" where
  "active_nodes_loop ext cfg nds current_time out [] = Inr out"
| "active_nodes_loop ext cfg nds current_time out ((id0, nd) # items) =
     (if active nd = Some True
      then (case serialize_node ext cfg nds nd (Some current_time) True of
              Inl e \<Rightarrow> Inl e
            | Inr v \<Rightarrow> active_nodes_loop ext cfg nds current_time (dict_setitem id0 v out) items)
      else active_nodes_loop ext cfg nds current_time out items)"

definition render_neighbors ::
  "io \<Rightarrow> ('a, 'f) engine \<Rightarrow> 'f externals \<Rightarrow> config \<Rightarrow> ('a node, 'a json) store \<Rightarrow> world
     \<Rightarrow> unit result" where
  "render_neighbors env tpl ext cfg data w =
     (case active_nodes_with_neighbors_loop ext cfg (nodes data) [] (nodes data) of
        Inl e \<Rightarrow> (Inl e, w)
      | Inr active_nodes_with_neighbors \<Rightarrow>
          render_html_and_save env tpl ext cfg ''neighbors.html''
            [(''nodes'', KNodes (nodes data)),
             (''active_nodes_with_neighbors'', KSerialized active_nodes_with_neighbors),
             (''geo'', KModule ''geo'')] w)"

definition render_nodes ::
  "io \<Rightarrow> ('a, 'f) engine \<Rightarrow> 'f externals \<Rightarrow> config \<Rightarrow> ('a node, 'a json) store \<Rightarrow> world
     \<Rightarrow> unit result" where
  "render_nodes env tpl ext cfg data w =
     (case active_nodes_loop ext cfg (nodes data) (now ext) [] (nodes data) of
        Inl e \<Rightarrow> (Inl e, w)
      | Inr active_nodes \<Rightarrow>
          render_html_and_save env tpl ext cfg ''nodes.html''
            [(''nodes'', KNodes (nodes data)), (''active_nodes'', KSerialized active_nodes),
             (''hardware'', KModule ''meshtastic_support.HardwareModel''),
             (''meshtastic_support'', KModule ''meshtastic_support'')] w)"

fun render_nodes_each_loop ::
  "io \<Rightarrow> ('a, 'f) engine \<Rightarrow> 'f externals \<Rightarrow> config \<Rightarrow> (string \<times> 'a node) list
     \<Rightarrow> (string \<times> 'a node) list \<Rightarrow> world \<Rightarrow> unit result" where
  "render_nodes_each_loop env tpl ext cfg nds [] w = (Inr (), w)"
| "render_nodes_each_loop env tpl ext cfg nds ((id0, nd) # items) w =
     (case serialize_node ext cfg nds nd None False of
        Inl e \<Rightarrow> (Inl e, w)
      | Inr v \<Rightarrow>
          bind (render_html_and_save env tpl ext cfg (''node_'' @ replace_bang id0 @ ''.html'')
                  [(''node'', KViewNode v), (''nodes'', KNodes nds),
                   (''hardware'', KModule ''meshtastic_support.HardwareModel''),
                   (''meshtastic_support'', KModule ''meshtastic_support'')] w)
            (\<lambda>_ w. render_nodes_each_loop env tpl ext cfg nds items w))"

definition render_nodes_each ::
  "io \<Rightarrow> ('a, 'f) engine \<Rightarrow> 'f externals \<Rightarrow> config \<Rightarrow> ('a node, 'a json) store \<Rightarrow> world
     \<Rightarrow> unit result" where
  "render_nodes_each env tpl ext cfg data w =
     render_nodes_each_loop env tpl ext cfg (nodes data) (nodes data) w"







section \<open>\<open>static_html_renderer.py\<close>: \<open>_render\<close>\<close>






section \<open>\<open>mqtt.py\<close>: \<open>MQTT.connect\<close>\<close>

text \<open>
  What the loop does, as a trace of actions. The broker and the network are the
  environment: a script of sessions, one per pass of \<open>while True\<close>. A session is either
  refused (entering \<open>aiomqtt.Client\<close> raises \<open>MqttError\<close>) or accepted; an accepted
  session says which \<open>subscribe\<close> calls raise \<open>MqttError\<close>, which messages arrive, and how
  the message stream ends (\<open>Some m\<close>: with \<open>MqttError\<close>; \<open>None\<close>: the iterator is
  exhausted). The parser and handler of \<open>process_mqtt_msg\<close> are outside the sources:
  \<open>process msg\<close> is the exception the call raises, if any; \<open>handler.start()\<close>, awaited
  before the loop, is taken to return.
\<close>

datatype 'm action =
    Log level string
  | Sleep nat
  | Subscribe string
  | SetConnectTime
  | Process 'm

datatype 'm session =
    Refused string
  | Accepted "string \<Rightarrow> string option" "'m list" "string option"

datatype outcome = Running | Raised py_error

fun subscribe_all ::
  "(string \<Rightarrow> string option) \<Rightarrow> string list \<Rightarrow> py_error option \<times> 'm action list" where
  "subscribe_all sub_fails [] = (None, [])"
| "subscribe_all sub_fails (t # ts) =
     (case sub_fails t of
        Some m \<Rightarrow> (Some (MqttError m), [])
      | None \<Rightarrow> (case subscribe_all sub_fails ts of (r, acts) \<Rightarrow> (r, Subscribe t # acts)))"

text \<open>Lines 64 to 72: the choice between \<open>broker.topics\<close>, \<open>broker.topic\<close> and \<open>exit(1)\<close>.\<close>

definition subscribe_configured ::
  "broker_config \<Rightarrow> (string \<Rightarrow> string option) \<Rightarrow> py_error option \<times> 'm action list" where
  "subscribe_configured b sub_fails =
     (case topics b of
        Some (CList ts) \<Rightarrow> subscribe_all sub_fails ts
      | _ \<Rightarrow>
          (case topic b of
             Some (CStr t) \<Rightarrow> subscribe_all sub_fails [t]
           | _ \<Rightarrow>
               (Some (SystemExit 1),
                [Log ERROR
                   ''No MQTT topics to subscribe to defined in config broker.topics or broker.topic''])))"

fun stream_messages ::
  "('m \<Rightarrow> py_error option) \<Rightarrow> 'm list \<Rightarrow> py_error option \<times> 'm action list" where
  "stream_messages process [] = (None, [])"
| "stream_messages process (msg # msgs) =
     (case process msg of
        Some e \<Rightarrow> (Some e, [Process msg])
      | None \<Rightarrow> (case stream_messages process msgs of (r, acts) \<Rightarrow> (r, Process msg # acts)))"

text \<open>The body of the \<open>try\<close>: the exception that leaves it, if any, and what was done.\<close>

definition session_body ::
  "config \<Rightarrow> ('m \<Rightarrow> py_error option) \<Rightarrow> 'm session \<Rightarrow> py_error option \<times> 'm action list" where
  "session_body cfg process s =
     (case s of
        Refused m \<Rightarrow> (Some (MqttError m), [])
      | Accepted sub_fails msgs ending \<Rightarrow>
          (let connected = Log INFO (''Connected to MQTT broker at '' @ host (broker cfg) @ '':''
                                      @ str_of_int (port (broker cfg)))
           in case subscribe_configured (broker cfg) sub_fails of
                (Some e, acts) \<Rightarrow> (Some e, connected # acts)
              | (None, acts) \<Rightarrow>
                  (case stream_messages process msgs of
                     (Some e, acts') \<Rightarrow> (Some e, connected # acts @ SetConnectTime # acts')
                   | (None, acts') \<Rightarrow>
                       (case ending of
                          Some m \<Rightarrow> (Some (MqttError m), connected # acts @ SetConnectTime # acts')
                        | None \<Rightarrow> (None, connected # acts @ SetConnectTime # acts')))))"

definition disconnected :: "string \<Rightarrow> 'm action list" where
  "disconnected m =
     [Log INFO (''Disconnected from MQTT broker: '' @ m @ [CHR 0x0A] @ ''Reconnecting...''),
      Sleep 5]"

text \<open>
  The \<open>while True\<close> loop with its \<open>except aiomqtt.MqttError\<close>. When the script of
  sessions is used up the loop is still running, about to connect again: \<open>Running\<close>.
\<close>

fun connect_loop ::
  "config \<Rightarrow> ('m \<Rightarrow> py_error option) \<Rightarrow> 'm session list \<Rightarrow> 'm action list
     \<Rightarrow> outcome \<times> 'm action list" where
  "connect_loop cfg process [] tr = (Running, tr)"
| "connect_loop cfg process (s # ss) tr =
     (case session_body cfg process s of
        (None, acts) \<Rightarrow> connect_loop cfg process ss (tr @ acts)
      | (Some (MqttError m), acts) \<Rightarrow> connect_loop cfg process ss (tr @ acts @ disconnected m)
      | (Some e, acts) \<Rightarrow> (Raised e, tr @ acts))"

definition connect ::
  "config \<Rightarrow> ('m \<Rightarrow> py_error option) \<Rightarrow> 'm session list \<Rightarrow> outcome \<times> 'm action list" where
  "connect cfg process ss =
     connect_loop cfg process ss
       [Log INFO (''Connecting to MQTT broker at '' @ host (broker cfg) @ '':''
                  @ str_of_int (port (broker cfg)))]"

text \<open>The exit status of the process, once \<open>connect\<close> has raised \<open>SystemExit\<close>.\<close>

fun exit_status :: "outcome \<Rightarrow> int option" where
  "exit_status (Raised (SystemExit c)) = Some c"
| "exit_status _ = None"

text \<open>
  The specification's words about positions: a node "has a fix" when it has a position with both
  latitude and longitude present and non-zero; \<open>coordinate\<close> reads one of the two.
\<close>

definition has_fix :: "position field \<Rightarrow> bool" where
  "has_fix f =
     (case f of
        Value pos \<Rightarrow>
          (case (map_of pos ''latitude_i'', map_of pos ''longitude_i'') of
             (Some la, Some lo) \<Rightarrow> la \<noteq> 0 \<and> lo \<noteq> 0
           | _ \<Rightarrow> False)
      | _ \<Rightarrow> False)"


text \<open>The condition under which \<open>render_neighbors\<close> serializes a node (line 134).\<close>

definition has_neighbors :: "'a node \<Rightarrow> bool" where
  "has_neighbors nd =
     (active nd = Some True \<and> (\<exists>ni. neighborinfo nd = Value ni \<and> truthy_neighborinfo (Some ni)))"

text \<open>
  The specification's layout of a container: the pieces joined by a separator, with no
  separator before the first or after the last.
\<close>

fun join_with :: "string \<Rightarrow> string list \<Rightarrow> string" where
  "join_with sep [] = []"
| "join_with sep [x] = x"
| "join_with sep (x # y # ys) = x @ sep @ join_with sep (y # ys)"

text \<open>
  The same data up to the order in which dict keys were inserted: two dicts are the same
  when they have the same keys and the same values under each key, lists are the same
  element by element, and scalars are the same when they are identical in type and
  value. (Python's \<open>==\<close> is coarser on scalars: it also identifies \<open>1\<close>, \<open>1.0\<close> and
  \<open>True\<close>, which are written as different bytes and are different data here.)
\<close>

inductive json_eq :: "'a json \<Rightarrow> 'a json \<Rightarrow> bool" where
  null: "json_eq JNull JNull"
| bool: "json_eq (JBool b) (JBool b)"
| int: "json_eq (JInt i) (JInt i)"
| str: "json_eq (JStr s) (JStr s)"
| other: "json_eq (JOther a) (JOther a)"
| list: "list_all2 json_eq xs ys \<Longrightarrow> json_eq (JList xs) (JList ys)"
| dict: "distinct (map fst d) \<Longrightarrow> distinct (map fst d') \<Longrightarrow>
         set (map fst d) = set (map fst d') \<Longrightarrow>
         (\<forall>(k, v) \<in> set d. \<forall>(k', v') \<in> set d'. k = k' \<longrightarrow> json_eq v v') \<Longrightarrow>
         json_eq (JDict d) (JDict d')"

section \<open>Concrete inputs used to run the definitions\<close>

definition example_config :: config where
  "example_config =
     \<lparr>paths_data = ''data'', paths_output = ''out'', paths_templates = ''templates'',
      server_node_id = ''aaaaaaaa'',
      broker = \<lparr>host = ''localhost'', port = 1883, topics = None, topic = None\<rparr>\<rparr>"

definition reliable_io :: io where
  "reliable_io =
     \<lparr>open_fails = (\<lambda>_. False), write_capacity = (\<lambda>_. None), replace_fails = (\<lambda>_ _. False)\<rparr>"

definition old_world :: world where
  "old_world = \<lparr>files = [''data/nodes.json'' \<mapsto> ''old''], syscalls = [], log = []\<rparr>"

definition topic_config :: config where
  "topic_config = example_config\<lparr>broker := (broker example_config)\<lparr>topic := Some (CStr ''msh/#'')\<rparr>\<rparr>"

definition topics_config :: config where
  "topics_config = example_config\<lparr>broker := (broker example_config)
      \<lparr>topics := Some (CList [''msh/a'', ''msh/b'']), topic := Some (CStr ''msh/#'')\<rparr>\<rparr>"

definition example_externals :: "int externals" where
  "example_externals =
     \<lparr>truediv = (\<lambda>x. x),
      distance_between_two_points = (\<lambda>a b c d. \<bar>a - c\<bar> + \<bar>b - d\<bar>),
      round2 = (\<lambda>x. x),
      convert_node_id_from_int_to_hex = (\<lambda>n. if n = 1 then ''00000001'' else ''ffffffff''),
      now = 1000,
      fromisoformat = (\<lambda>_. None),
      isoformat = (\<lambda>_. ''2024-01-01T00:00:00'')\<rparr>"


definition empty_chat :: "unit json" where
  "empty_chat = JDict [(''channels'', JDict [(''0'', JDict [(''messages'', JList [])])])]"

definition empty_store :: "(unit node, unit json) store" where
  "empty_store =
     \<lparr>nodes = [], chat = empty_chat, telemetry = JList [], traceroutes = JList [],
      messages = JList [], mqtt_messages = JList [], graph = JDict [],
      mqtt_connect_time = JNull\<rparr>"

definition host_node :: "unit node" where
  "host_node =
     \<lparr>ident = ''aaaaaaaa'', shortname = ''HOST'', longname = ''Host node'', hardware = JInt 9,
      role = None, position = Value [(''latitude_i'', 10), (''longitude_i'', 20)],
      neighborinfo = PyNone, node_telemetry = JNull, last_seen = Datetime (Aware 900),
      active = Some True\<rparr>"

definition far_node :: "unit node" where
  "far_node =
     \<lparr>ident = ''00000001'', shortname = ''FAR'', longname = ''Far node'', hardware = JInt 9,
      role = None, position = Value [(''latitude_i'', 13), (''longitude_i'', 24)],
      neighborinfo = PyNone, node_telemetry = JNull, last_seen = Datetime (Aware 950),
      active = Some False\<rparr>"

definition nofix_node :: "unit node" where
  "nofix_node =
     \<lparr>ident = ''bbbbbbbb'', shortname = ''NOFX'', longname = ''No fix'', hardware = JInt 9,
      role = None, position = Value [(''latitude_i'', 0), (''longitude_i'', 0)],
      neighborinfo = Value \<lparr>neighbors = Some [\<lparr>node_id = 1, snr = JInt 5\<rparr>], other_items = []\<rparr>,
      node_telemetry = JNull, last_seen = Datetime (Aware 990), active = Some True\<rparr>"

definition mesh_store :: "(unit node, unit json) store" where
  "mesh_store = empty_store\<lparr>nodes :=
     [(''aaaaaaaa'', host_node), (''00000001'', far_node), (''bbbbbbbb'', nofix_node)]\<rparr>"

definition quiet_store :: "(unit node, unit json) store" where
  "quiet_store = empty_store\<lparr>nodes := [(''00000001'', far_node)]\<rparr>"

definition plain_template :: "(unit, int) engine" where
  "plain_template path kwargs = Html ''<html>''"

definition lost_store :: "(unit node, unit json) store" where
  "lost_store = empty_store\<lparr>nodes := [(''00000001'', far_node), (''bbbbbbbb'', nofix_node)]\<rparr>"


section \<open>Snapshot export: which node ids are kept\<close>

lemma swp_path_final: "swp_path cfg filename = final_path cfg filename @ ''.swp''"
  by (simp add: swp_path_def final_path_def)

lemma swp_path_neq_final: "swp_path cfg filename \<noteq> final_path cfg filename"
  by (simp add: swp_path_def final_path_def)

text \<open>
  C1. The specification says that a node is kept in the exported node set if and only if its id, after
  stripping a leading \<open>!\<close>, is exactly 8 hexadecimal characters. The loop tests the
  length only (\<open>len(id) != 8\<close>), although its comment reads "8 hex chars required": the id
  \<open>zzzzzzzz\<close>, which has no hexadecimal character at all, is exported.
\<close>

theorem export_nodes_keeps_non_hex_id:
  "export_nodes [] [(''zzzzzzzz'', node)] = [(''zzzzzzzz'', node)]
   \<and> \<not> valid_node_id ''zzzzzzzz''"
  by (simp add: startswith_def valid_node_id_def strip_sigil_def is_hex_char_def)

text \<open>
  What the loop keeps: a key is in the exported dict exactly when it has length 8 and is
  some Store id, with every \<open>!\<close> removed if the id starts with \<open>!\<close>.
\<close>

lemma keys_dict_setitem:
  "set (map fst (dict_setitem k' v d)) = insert k' (set (map fst d))"
  by (induction k' v d rule: dict_setitem.induct) auto

lemma dict_contains_setitem:
  "dict_contains k (dict_setitem k' v d) \<longleftrightarrow> k = k' \<or> dict_contains k d"
  using keys_dict_setitem[of k' v d] by (auto simp: dict_contains_def)

lemma export_nodes_keeps_by_length:
  "dict_contains k (export_nodes out items) \<longleftrightarrow>
     dict_contains k out
     \<or> (length k = 8
        \<and> (\<exists>(id0, node) \<in> set items. (if startswith id0 ''!'' then replace_bang id0 else id0) = k))"
proof (induction items arbitrary: out)
  case Nil then show ?case by simp
next
  case (Cons a items)
  obtain id0 node where a: "a = (id0, node)" by (cases a)
  show ?case using Cons[of out] Cons[of "dict_setitem (if startswith id0 ''!'' then replace_bang id0 else id0) node out"] a
    by (auto simp: Let_def dict_contains_setitem)
qed

section \<open>Snapshot export: the write to the temporary file and the replace\<close>

lemma save_ok_iff:
  "(fst (DataRenderer_save_file env cfg dflt filename data w) = Inr ()) =
     (\<not> open_fails env (swp_path cfg filename)
      \<and> (\<forall>k. write_capacity env (swp_path cfg filename) = Some k
              \<longrightarrow> length (fst (json_dump dflt data)) \<le> k)
      \<and> snd (json_dump dflt data) = None
      \<and> \<not> replace_fails env (swp_path cfg filename) (final_path cfg filename))"
  by (auto simp: DataRenderer_save_file_def Let_def split: if_splits option.splits prod.splits)

text \<open>
  C2. For every run of \<open>save_file\<close>, whatever the environment does: the temporary path is
  the final path with \<open>.swp\<close> appended (same directory); the run returns normally exactly
  when opening the temporary file, writing the whole text to it, serialising and the
  replace all succeed, and every failure of one of them ends the run in an exception; a
  run that ends in an exception leaves the final path's content as it was and has only
  opened and written the temporary path; a run that returns normally has issued exactly
  open, write and replace, in this order, the final path holds the whole serialised
  text and the temporary path is gone.
\<close>

theorem save_file_writes_swp_then_replaces:
  assumes "DataRenderer_save_file env cfg dflt filename data w = (r, w')"
  shows "swp_path cfg filename = final_path cfg filename @ ''.swp''
    \<and> (r = Inr ()) =
        (\<not> open_fails env (swp_path cfg filename)
         \<and> (\<forall>k. write_capacity env (swp_path cfg filename) = Some k
                 \<longrightarrow> length (fst (json_dump dflt data)) \<le> k)
         \<and> snd (json_dump dflt data) = None
         \<and> \<not> replace_fails env (swp_path cfg filename) (final_path cfg filename))
    \<and> ((open_fails env (swp_path cfg filename)
         \<or> (\<exists>k. write_capacity env (swp_path cfg filename) = Some k
                \<and> k < length (fst (json_dump dflt data)))
         \<or> snd (json_dump dflt data) \<noteq> None
         \<or> replace_fails env (swp_path cfg filename) (final_path cfg filename))
        \<longrightarrow> (\<exists>e. r = Inl e))
    \<and> ((\<exists>e. r = Inl e) \<longrightarrow>
          files w' (final_path cfg filename) = files w (final_path cfg filename)
          \<and> (\<forall>op \<in> set (drop (length (syscalls w)) (syscalls w')).
                op = OpenW (swp_path cfg filename)
                \<or> (\<exists>s. op = Write (swp_path cfg filename) s)))
    \<and> (r = Inr () \<longrightarrow>
          syscalls w' = syscalls w @
            [OpenW (swp_path cfg filename),
             Write (swp_path cfg filename) (fst (json_dump dflt data)),
             Replace (swp_path cfg filename) (final_path cfg filename)]
          \<and> files w' (final_path cfg filename) = Some (fst (json_dump dflt data))
          \<and> files w' (swp_path cfg filename) = None)"
proof -
  have ok: "(r = Inr ()) =
        (\<not> open_fails env (swp_path cfg filename)
         \<and> (\<forall>k. write_capacity env (swp_path cfg filename) = Some k
                 \<longrightarrow> length (fst (json_dump dflt data)) \<le> k)
         \<and> snd (json_dump dflt data) = None
         \<and> \<not> replace_fails env (swp_path cfg filename) (final_path cfg filename))"
    using save_ok_iff[of env cfg dflt filename data w] assms by simp
  have fails: "(open_fails env (swp_path cfg filename)
         \<or> (\<exists>k. write_capacity env (swp_path cfg filename) = Some k
                \<and> k < length (fst (json_dump dflt data)))
         \<or> snd (json_dump dflt data) \<noteq> None
         \<or> replace_fails env (swp_path cfg filename) (final_path cfg filename))
        \<longrightarrow> (\<exists>e. r = Inl e)"
    using ok by (cases r) auto
  have rest: "((\<exists>e. r = Inl e) \<longrightarrow>
          files w' (final_path cfg filename) = files w (final_path cfg filename)
          \<and> (\<forall>op \<in> set (drop (length (syscalls w)) (syscalls w')).
                op = OpenW (swp_path cfg filename)
                \<or> (\<exists>s. op = Write (swp_path cfg filename) s)))
    \<and> (r = Inr () \<longrightarrow>
          syscalls w' = syscalls w @
            [OpenW (swp_path cfg filename),
             Write (swp_path cfg filename) (fst (json_dump dflt data)),
             Replace (swp_path cfg filename) (final_path cfg filename)]
          \<and> files w' (final_path cfg filename) = Some (fst (json_dump dflt data))
          \<and> files w' (swp_path cfg filename) = None)"
    using assms swp_path_neq_final[of cfg filename]
    by (auto simp: DataRenderer_save_file_def Let_def logging_def fs_open_w_def fs_write_def
          fs_replace_def split: if_splits option.splits prod.splits)
  show ?thesis using ok fails rest swp_path_final[of cfg filename] by blast
qed

theorem save_file_writes_swp_then_replaces_witness:
  "fst (DataRenderer_save_file reliable_io example_config (\<lambda>_::unit. None) ''nodes.json''
          (JList [JInt 1, JOther ()]) old_world) = Inl (TypeError ''Object is not JSON serializable'')
   \<and> files (snd (DataRenderer_save_file reliable_io example_config (\<lambda>_::unit. None) ''nodes.json''
          (JList [JInt 1, JOther ()]) old_world)) ''data/nodes.json'' = Some ''old''
   \<and> fst (DataRenderer_save_file reliable_io example_config (\<lambda>_::unit. None) ''nodes.json''
          (JList [JInt 1, JInt 2]) old_world) = Inr ()
   \<and> files (snd (DataRenderer_save_file reliable_io example_config (\<lambda>_::unit. None) ''nodes.json''
          (JList [JInt 1, JInt 2]) old_world)) ''data/nodes.json''
       = Some (''['' @ [CHR 0x0A] @ ''  1,'' @ [CHR 0x0A] @ ''  2'' @ [CHR 0x0A] @ '']'')"
proof -
  let ?bad = "DataRenderer_save_file reliable_io example_config (\<lambda>_::unit. None) ''nodes.json''
          (JList [JInt 1, JOther ()]) old_world"
  let ?good = "DataRenderer_save_file reliable_io example_config (\<lambda>_::unit. None) ''nodes.json''
          (JList [JInt 1, JInt 2]) old_world"
  have final: "final_path example_config ''nodes.json'' = ''data/nodes.json''"
    by (simp add: final_path_def example_config_def)
  have bad: "json_dump (\<lambda>_::unit. None) (JList [JInt 1, JOther ()]) = (''['' @ [CHR 0x0A] @ ''  1,'' @ [CHR 0x0A] @ ''  '', Some (TypeError ''Object is not JSON serializable''))"
    by code_simp
  have good: "json_dump (\<lambda>_::unit. None) (JList [JInt 1, JInt 2]) = (''['' @ [CHR 0x0A] @ ''  1,'' @ [CHR 0x0A] @ ''  2'' @ [CHR 0x0A] @ '']'', None)"
    by code_simp
  have b1: "fst ?bad = Inl (TypeError ''Object is not JSON serializable'')"
    using bad by (simp add: DataRenderer_save_file_def reliable_io_def Let_def split: prod.splits)
  have g1: "fst ?good = Inr ()"
    using good by (simp add: DataRenderer_save_file_def reliable_io_def Let_def split: prod.splits)
  from save_file_writes_swp_then_replaces[where env=reliable_io and cfg=example_config and dflt="\<lambda>_::unit. None" and filename="''nodes.json''" and data="JList [JInt 1, JOther ()]" and w=old_world, OF prod.collapse[symmetric]] b1
  have b2: "files (snd ?bad) ''data/nodes.json'' = Some ''old''"
    by (simp add: final old_world_def)
  from save_file_writes_swp_then_replaces[where env=reliable_io and cfg=example_config and dflt="\<lambda>_::unit. None" and filename="''nodes.json''" and data="JList [JInt 1, JInt 2]" and w=old_world, OF prod.collapse[symmetric]] g1 good
  have g2: "files (snd ?good) ''data/nodes.json'' = Some (''['' @ [CHR 0x0A] @ ''  1,'' @ [CHR 0x0A] @ ''  2'' @ [CHR 0x0A] @ '']'')"
    by (auto simp: final)
  show ?thesis using b1 b2 g1 g2 by simp
qed

section \<open>Snapshot export: determinism\<close>

lemma maps_agree:
  assumes "length as = length bs" and "\<forall>n < length as. F (as ! n) = G (bs ! n)"
  shows "map F as = map G bs"
  using assms by (intro nth_equalityI) simp_all

lemma sorted_keys_eq:
  fixes d :: "(string \<times> 'b) list" and d' :: "(string \<times> 'c) list"
  assumes "distinct (map fst d)" "distinct (map fst d')" "set (map fst d) = set (map fst d')"
  shows "map fst (sort_key fst d) = map fst (sort_key fst d')"
proof -
  have "mset (map fst (sort_key fst d)) = mset (map fst d)"
    by simp
  then have d1: "distinct (map fst (sort_key fst d))"
    using assms(1) by (metis mset_eq_imp_distinct_iff)
  have "mset (map fst (sort_key fst d')) = mset (map fst d')"
    by simp
  then have d2: "distinct (map fst (sort_key fst d'))"
    using assms(2) by (metis mset_eq_imp_distinct_iff)
  have s: "set (map fst (sort_key fst d)) = set (map fst (sort_key fst d'))"
    using assms(3) by simp
  show ?thesis
    by (rule sorted_distinct_set_unique[OF sorted_sort_key d1 sorted_sort_key d2 s])
qed

lemma json_eq_iterencode:
  "json_eq a b \<Longrightarrow> iterencode dflt l a = iterencode dflt l b"
proof (induction arbitrary: l rule: json_eq.induct)
  case (list xs ys)
  then have len: "length xs = length ys" and
    nth: "\<And>i l. i < length xs \<Longrightarrow> iterencode dflt l (xs ! i) = iterencode dflt l (ys ! i)"
    by (auto simp: list_all2_conv_all_nth)
  have "map (iterencode dflt (Suc l)) xs = map (iterencode dflt (Suc l)) ys"
    by (rule maps_agree[OF len]) (simp add: nth)
  moreover have "xs = [] \<longleftrightarrow> ys = []" using len by auto
  ultimately show ?case by simp
next
  case (dict d d')
  let ?s = "sort_key fst d" and ?s' = "sort_key fst d'"
  let ?F = "\<lambda>(k, v). seq (emit (encode_basestring_ascii k @ '': '')) (iterencode dflt (Suc l) v)"
  have keys: "map fst ?s = map fst ?s'"
    by (rule sorted_keys_eq[OF dict(1) dict(2) dict(3)])
  then have len: "length ?s = length ?s'" by (metis length_map)
  have "map ?F ?s = map ?F ?s'"
  proof (rule maps_agree[OF len], intro allI impI)
    fix i assume i: "i < length ?s"
    then have i': "i < length ?s'" using len by simp
    obtain k v where kv: "?s ! i = (k, v)" by (cases "?s ! i")
    obtain k' v' where kv': "?s' ! i = (k', v')" by (cases "?s' ! i")
    have "fst (?s ! i) = fst (?s' ! i)"
      using keys i i' by (metis nth_map)
    then have kk: "k = k'" using kv kv' by simp
    have "(k, v) \<in> set d" using i kv by (metis nth_mem set_sort)
    moreover have "(k', v') \<in> set d'" using i' kv' by (metis nth_mem set_sort)
    ultimately have "iterencode dflt (Suc l) v = iterencode dflt (Suc l) v'"
      using dict(4) kk by fastforce
    then show "?F (?s ! i) = ?F (?s' ! i)" using kv kv' kk by simp
  qed
  moreover have "d = [] \<longleftrightarrow> d' = []" using dict(3) by auto
  ultimately show ?case by simp
qed simp_all

lemma seq_ok: "snd (seq a b) = None \<longleftrightarrow> snd a = None \<and> snd b = None"
  by (cases a; cases b; cases "snd a") auto

lemma seq_fst: "snd a = None \<Longrightarrow> fst (seq a b) = fst a @ fst b"
  by (cases a; cases b) auto

lemma join_items_ok:
  "snd (join_items sep es) = None \<longleftrightarrow> (\<forall>e \<in> set es. snd e = None)"
  by (induction sep es rule: join_items.induct) (auto simp: seq_ok emit_def)

lemma join_items_fst:
  "\<forall>e \<in> set es. snd e = None \<Longrightarrow> fst (join_items sep es) = join_with sep (map fst es)"
  by (induction sep es rule: join_items.induct) (auto simp: seq_fst seq_ok emit_def join_items_ok)

lemma sorted_items:
  fixes d :: "(string \<times> 'v) list"
  assumes "distinct (map fst d)"
  shows "sort_key fst d = map (\<lambda>k. (k, the (map_of d k))) (sorted_list_of_set (set (map fst d)))"
proof -
  have "mset (map fst (sort_key fst d)) = mset (map fst d)" by simp
  then have dist: "distinct (map fst (sort_key fst d))"
    using assms by (metis mset_eq_imp_distinct_iff)
  have keys: "sorted_list_of_set (set (map fst d)) = map fst (sort_key fst d)"
    using sorted_list_of_set.idem_if_sorted_distinct[OF sorted_sort_key dist]
    by simp
  have "map (\<lambda>p. (fst p, the (map_of d (fst p)))) (sort_key fst d) = sort_key fst d"
  proof (rule map_idI)
    fix p assume "p \<in> set (sort_key fst d)"
    then have "(fst p, snd p) \<in> set d" by simp
    then have "map_of d (fst p) = Some (snd p)" using assms by (rule map_of_is_SomeI[rotated])
    then show "(fst p, the (map_of d (fst p))) = p" by simp
  qed
  then have "sort_key fst d = map (\<lambda>k. (k, the (map_of d k))) (map fst (sort_key fst d))"
    by (simp add: comp_def)
  then show ?thesis unfolding keys .
qed

lemma dict_layout:
  assumes "distinct (map fst d)" "d \<noteq> []" "snd (iterencode dflt lvl (JDict d)) = None"
  shows "fst (iterencode dflt lvl (JDict d)) =
     ''{'' @ newline_indent (Suc lvl)
     @ join_with ('','' @ newline_indent (Suc lvl))
         (map (\<lambda>k. encode_basestring_ascii k @ '': ''
                    @ fst (iterencode dflt (Suc lvl) (the (map_of d k))))
            (sorted_list_of_set (set (map fst d))))
     @ newline_indent lvl @ ''}''"
proof -
  let ?F = "\<lambda>(k, v). seq (emit (encode_basestring_ascii k @ '': ''))
                         (iterencode dflt (Suc lvl) v)"
  let ?es = "map ?F (sort_key fst d)"
  from assms(2,3) have ok: "\<forall>e \<in> set ?es. snd e = None"
    by (simp add: seq_ok emit_def join_items_ok)
  have each: "\<And>k v. (k, v) \<in> set d \<Longrightarrow> fst (?F (k, v))
      = encode_basestring_ascii k @ '': '' @ fst (iterencode dflt (Suc lvl) v)"
    by (simp add: seq_fst emit_def)
  have "map fst ?es = map (\<lambda>(k, v). encode_basestring_ascii k @ '': ''
                    @ fst (iterencode dflt (Suc lvl) v)) (sort_key fst d)"
    by (auto simp: seq_fst emit_def)
  also have "\<dots> = map (\<lambda>k. encode_basestring_ascii k @ '': ''
                    @ fst (iterencode dflt (Suc lvl) (the (map_of d k))))
            (sorted_list_of_set (set (map fst d)))"
    by (subst sorted_items[OF assms(1)]) (simp add: comp_def)
  finally have m: "map fst ?es = map (\<lambda>k. encode_basestring_ascii k @ '': ''
                    @ fst (iterencode dflt (Suc lvl) (the (map_of d k))))
            (sorted_list_of_set (set (map fst d)))" .
  show ?thesis
    using assms(2) ok m join_items_fst[OF ok, of "'','' @ newline_indent (Suc lvl)"]
    by (simp add: seq_fst seq_ok emit_def join_items_ok)
qed

lemma list_layout:
  assumes "xs \<noteq> []" "snd (iterencode dflt lvl (JList xs)) = None"
  shows "fst (iterencode dflt lvl (JList xs)) =
     ''['' @ newline_indent (Suc lvl)
     @ join_with ('','' @ newline_indent (Suc lvl))
         (map (\<lambda>x. fst (iterencode dflt (Suc lvl) x)) xs)
     @ newline_indent lvl @ '']''"
proof -
  let ?es = "map (iterencode dflt (Suc lvl)) xs"
  from assms have ok: "\<forall>e \<in> set ?es. snd e = None"
    by (simp add: seq_ok emit_def join_items_ok)
  show ?thesis
    using assms(1) ok join_items_fst[OF ok, of "'','' @ newline_indent (Suc lvl)"]
    by (simp add: seq_fst seq_ok emit_def join_items_ok comp_def)
qed

text \<open>
  C3. The bytes \<open>save_file\<close> leaves in the final file are a function of the data alone:
  two successful runs on the same data (or on data that differs only in the order in
  which dict keys were inserted, at any depth), from any two worlds and under any two
  environments, leave the same bytes, the text of \<open>json.dump\<close>. That text is laid out as
  follows, at every nesting level \<open>lvl\<close>: a non-empty dict is \<open>{\<close>, then its items in
  ascending order of their keys, each on a line of its own indented by \<open>2 * (lvl + 1)\<close>
  spaces as \<open>"key": value\<close> and separated by commas, then \<open>}\<close> on a line indented by
  \<open>2 * lvl\<close> spaces; a non-empty list likewise between \<open>[\<close> and \<open>]\<close>, in list order; empty
  containers are \<open>{}\<close> and \<open>[]\<close>.
\<close>

theorem save_file_deterministic:
  "((data' = data \<or> json_eq data data') \<longrightarrow> json_dump dflt data' = json_dump dflt data)
   \<and> (DataRenderer_save_file env cfg dflt filename data w = (Inr (), w1) \<longrightarrow>
        files w1 (final_path cfg filename) = Some (fst (json_dump dflt data)))
   \<and> ((data' = data \<or> json_eq data data')
        \<and> DataRenderer_save_file env cfg dflt filename data w = (Inr (), w1)
        \<and> DataRenderer_save_file env' cfg dflt filename data' w' = (Inr (), w2) \<longrightarrow>
        files w2 (final_path cfg filename) = files w1 (final_path cfg filename))
   \<and> json_dump dflt data = iterencode dflt 0 data
   \<and> (distinct (map fst d) \<and> d \<noteq> [] \<and> snd (iterencode dflt lvl (JDict d)) = None \<longrightarrow>
        fst (iterencode dflt lvl (JDict d)) =
          ''{'' @ newline_indent (Suc lvl)
          @ join_with ('','' @ newline_indent (Suc lvl))
              (map (\<lambda>k. encode_basestring_ascii k @ '': ''
                         @ fst (iterencode dflt (Suc lvl) (the (map_of d k))))
                 (sorted_list_of_set (set (map fst d))))
          @ newline_indent lvl @ ''}'')
   \<and> (xs \<noteq> [] \<and> snd (iterencode dflt lvl (JList xs)) = None \<longrightarrow>
        fst (iterencode dflt lvl (JList xs)) =
          ''['' @ newline_indent (Suc lvl)
          @ join_with ('','' @ newline_indent (Suc lvl))
              (map (\<lambda>x. fst (iterencode dflt (Suc lvl) x)) xs)
          @ newline_indent lvl @ '']'')
   \<and> iterencode dflt lvl (JDict []) = (''{}'', None)
   \<and> iterencode dflt lvl (JList []) = (''[]'', None)
   \<and> newline_indent lvl = CHR 0x0A # replicate (2 * lvl) (CHR '' '')"
proof -
  have eq: "(data' = data \<or> json_eq data data') \<longrightarrow> json_dump dflt data' = json_dump dflt data"
    using json_eq_iterencode[of data data' dflt 0] by (auto simp: json_dump_def)
  have neq: "swp_path cfg filename \<noteq> final_path cfg filename"
    by (rule swp_path_neq_final)
  have f: "\<And>env data w w1. DataRenderer_save_file env cfg dflt filename data w = (Inr (), w1) \<Longrightarrow>
        files w1 (final_path cfg filename) = Some (fst (json_dump dflt data))"
    using neq
    by (auto simp: DataRenderer_save_file_def Let_def logging_def fs_open_w_def fs_write_def
          fs_replace_def split: if_splits option.splits prod.splits)
  have both: "(data' = data \<or> json_eq data data')
        \<and> DataRenderer_save_file env cfg dflt filename data w = (Inr (), w1)
        \<and> DataRenderer_save_file env' cfg dflt filename data' w' = (Inr (), w2) \<longrightarrow>
        files w2 (final_path cfg filename) = files w1 (final_path cfg filename)"
    using eq f[of env data w w1] f[of env' data' w' w2] by auto
  have dl: "distinct (map fst d) \<and> d \<noteq> [] \<and> snd (iterencode dflt lvl (JDict d)) = None \<longrightarrow>
        fst (iterencode dflt lvl (JDict d)) =
          ''{'' @ newline_indent (Suc lvl)
          @ join_with ('','' @ newline_indent (Suc lvl))
              (map (\<lambda>k. encode_basestring_ascii k @ '': ''
                         @ fst (iterencode dflt (Suc lvl) (the (map_of d k))))
                 (sorted_list_of_set (set (map fst d))))
          @ newline_indent lvl @ ''}''"
    using dict_layout[of d dflt lvl] by blast
  have ll: "xs \<noteq> [] \<and> snd (iterencode dflt lvl (JList xs)) = None \<longrightarrow>
        fst (iterencode dflt lvl (JList xs)) =
          ''['' @ newline_indent (Suc lvl)
          @ join_with ('','' @ newline_indent (Suc lvl))
              (map (\<lambda>x. fst (iterencode dflt (Suc lvl) x)) xs)
          @ newline_indent lvl @ '']''"
    using list_layout[of xs dflt lvl] by blast
  have e: "iterencode dflt lvl (JDict []) = (''{}'', None)"
      "iterencode dflt lvl (JList []) = (''[]'', None)"
      "newline_indent lvl = CHR 0x0A # replicate (2 * lvl) (CHR '' '')"
      "json_dump dflt data = iterencode dflt 0 data"
    by (simp_all add: emit_def newline_indent_def json_dump_def)
  show ?thesis using eq f[of env data w w1] both dl ll e by blast
qed

theorem save_file_deterministic_witness:
  "json_eq (JDict [(''b'', JInt 1), (''a'', JList [JInt 2 :: unit json])])
           (JDict [(''a'', JList [JInt 2]), (''b'', JInt 1)])
   \<and> files (snd (DataRenderer_save_file reliable_io example_config (\<lambda>_::unit. None) ''nodes.json''
         (JDict [(''b'', JInt 1), (''a'', JList [JInt 2])]) old_world)) ''data/nodes.json''
      = Some (''{'' @ [CHR 0x0A] @ ''  '' @ [CHR 0x22] @ ''a'' @ [CHR 0x22] @ '': ['' @ [CHR 0x0A]
              @ ''    2'' @ [CHR 0x0A] @ ''  ],'' @ [CHR 0x0A] @ ''  '' @ [CHR 0x22] @ ''b''
              @ [CHR 0x22] @ '': 1'' @ [CHR 0x0A] @ ''}'')
   \<and> files (snd (DataRenderer_save_file reliable_io example_config (\<lambda>_::unit. None) ''nodes.json''
         (JDict [(''a'', JList [JInt 2]), (''b'', JInt 1)])
         (snd (DataRenderer_save_file reliable_io example_config (\<lambda>_::unit. None) ''nodes.json''
            (JDict [(''b'', JInt 1), (''a'', JList [JInt 2])]) old_world)))) ''data/nodes.json''
      = Some (''{'' @ [CHR 0x0A] @ ''  '' @ [CHR 0x22] @ ''a'' @ [CHR 0x22] @ '': ['' @ [CHR 0x0A]
              @ ''    2'' @ [CHR 0x0A] @ ''  ],'' @ [CHR 0x0A] @ ''  '' @ [CHR 0x22] @ ''b''
              @ [CHR 0x22] @ '': 1'' @ [CHR 0x0A] @ ''}'')"
proof -
  let ?d1 = "JDict [(''b'', JInt 1), (''a'', JList [JInt 2 :: unit json])]"
  let ?d2 = "JDict [(''a'', JList [JInt 2 :: unit json]), (''b'', JInt 1)]"
  let ?run1 = "DataRenderer_save_file reliable_io example_config (\<lambda>_::unit. None) ''nodes.json''
                 ?d1 old_world"
  let ?run2 = "DataRenderer_save_file reliable_io example_config (\<lambda>_::unit. None) ''nodes.json''
                 ?d2 (snd ?run1)"
  let ?text = "''{'' @ [CHR 0x0A] @ ''  '' @ [CHR 0x22] @ ''a'' @ [CHR 0x22] @ '': ['' @ [CHR 0x0A]
              @ ''    2'' @ [CHR 0x0A] @ ''  ],'' @ [CHR 0x0A] @ ''  '' @ [CHR 0x22] @ ''b''
              @ [CHR 0x22] @ '': 1'' @ [CHR 0x0A] @ ''}''"
  have final: "final_path example_config ''nodes.json'' = ''data/nodes.json''"
    by (simp add: final_path_def example_config_def)
  have eq: "json_eq ?d1 ?d2"
    by (rule json_eq.dict) (auto intro!: json_eq.intros)
  have dump1: "json_dump (\<lambda>_::unit. None) ?d1 = (?text, None)"
    by code_simp
  have dump2: "json_dump (\<lambda>_::unit. None) ?d2 = (?text, None)"
    by code_simp
  have r1: "?run1 = (Inr (), snd ?run1)"
    using dump1
    by (simp add: DataRenderer_save_file_def reliable_io_def Let_def split: prod.splits)
  have r2: "?run2 = (Inr (), snd ?run2)"
    using dump2
    by (simp add: DataRenderer_save_file_def reliable_io_def Let_def split: prod.splits)
  from save_file_deterministic[of ?d2 ?d1 "\<lambda>_::unit. None" reliable_io example_config
         "''nodes.json''" old_world "snd ?run1" reliable_io "snd ?run1" "snd ?run2"]
       eq r1 r2 dump1
  have "files (snd ?run1) ''data/nodes.json'' = Some ?text"
    and "files (snd ?run2) ''data/nodes.json'' = Some ?text"
    by (simp_all add: final)
  with eq show ?thesis by simp
qed

section \<open>The ingestion loop\<close>

lemma subscribe_all_ok:
  "(\<forall>t \<in> set ts. sub_fails t = None) \<Longrightarrow> subscribe_all sub_fails ts = (None, map Subscribe ts)"
  by (induction ts) auto

lemma connect_loop_refused:
  "connect_loop cfg process (map Refused rs @ ss) tr
     = connect_loop cfg process ss (tr @ concat (map disconnected rs))"
  by (induction rs arbitrary: tr) (auto simp: session_body_def)

lemma no_topics_exit:
  assumes "\<nexists>ts. topics (broker cfg) = Some (CList ts)" "\<nexists>t. topic (broker cfg) = Some (CStr t)"
  shows "subscribe_configured (broker cfg) sub_fails = (Some (SystemExit 1),
            [Log ERROR ''No MQTT topics to subscribe to defined in config broker.topics or broker.topic''])"
  using assms by (auto simp: subscribe_configured_def split: option.splits cfg_value.splits)

lemma no_topics_session:
  assumes "\<nexists>ts. topics (broker cfg) = Some (CList ts)" "\<nexists>t. topic (broker cfg) = Some (CStr t)"
  shows "fst (session_body cfg process (Accepted sf msgs ending)) = Some (SystemExit 1)"
  by (simp add: session_body_def no_topics_exit[OF assms] Let_def)

text \<open>
  C8, as stated: a configuration with neither a valid list of topics nor a valid single
  topic makes the process terminate with non-zero exit status. The test of the topics
  is inside the connected block (lines 64 to 72), so it is reached only once the broker
  has accepted a connection: with no topic configured and a broker that refuses the
  connection, the loop logs, sleeps and retries, and has not exited.
\<close>

theorem refused_broker_never_exits:
  "topics (broker example_config) = None \<and> topic (broker example_config) = None
   \<and> connect example_config (\<lambda>_::string. None)
        [Refused ''unreachable'', Refused ''unreachable'', Refused ''unreachable'']
      = (Running,
         [Log INFO ''Connecting to MQTT broker at localhost:1883'',
          Log INFO (''Disconnected from MQTT broker: unreachable'' @ [CHR 0x0A] @ ''Reconnecting...''),
          Sleep 5,
          Log INFO (''Disconnected from MQTT broker: unreachable'' @ [CHR 0x0A] @ ''Reconnecting...''),
          Sleep 5,
          Log INFO (''Disconnected from MQTT broker: unreachable'' @ [CHR 0x0A] @ ''Reconnecting...''),
          Sleep 5])
   \<and> exit_status (fst (connect example_config (\<lambda>_::string. None)
        [Refused ''unreachable'', Refused ''unreachable'', Refused ''unreachable''])) = None"
proof -
  have port: "str_of_int 1883 = ''1883''" by code_simp
  show ?thesis
    using port by (simp add: connect_def session_body_def disconnected_def example_config_def)
qed

lemma connect_loop_extends: "\<exists>suffix. snd (connect_loop cfg process ss tr) = tr @ suffix"
proof (induction ss arbitrary: tr)
  case Nil then show ?case by simp
next
  case (Cons s ss)
  obtain r acts where b: "session_body cfg process s = (r, acts)" by (cases "session_body cfg process s")
  show ?case
  proof (cases r)
    case None
    then show ?thesis using Cons[of "tr @ acts"] b by auto
  next
    case (Some e)
    show ?thesis
    proof (cases e)
      case (MqttError m)
      then show ?thesis using Cons[of "tr @ acts @ disconnected m"] b Some by auto
    qed (use b Some in auto)
  qed
qed

lemma connect_loop_head:
  "\<exists>suffix. snd (connect_loop cfg process (s # ss) tr)
     = tr @ snd (session_body cfg process s) @ suffix"
proof -
  obtain r acts where b: "session_body cfg process s = (r, acts)" by (cases "session_body cfg process s")
  show ?thesis
  proof (cases r)
    case None
    then show ?thesis using connect_loop_extends[of cfg process ss "tr @ acts"] b by auto
  next
    case (Some e)
    show ?thesis
    proof (cases e)
      case (MqttError m)
      then show ?thesis
        using connect_loop_extends[of cfg process ss "tr @ acts @ disconnected m"] b Some by auto
    qed (use b Some in auto)
  qed
qed

lemma session_subscribed:
  fixes process :: "'m \<Rightarrow> py_error option"
  assumes "subscribe_configured (broker cfg) sf = (None, subs :: 'm action list)"
  shows "snd (session_body cfg process (Accepted sf msgs ending))
     = Log INFO (''Connected to MQTT broker at '' @ host (broker cfg) @ '':''
                 @ str_of_int (port (broker cfg)))
       # subs @ SetConnectTime # snd (stream_messages process msgs)"
  using assms by (auto simp: session_body_def Let_def split: prod.splits option.splits)

text \<open>
  C8, amended. In the first session the broker accepts, after any number of refused
  connection attempts: with neither a list under \<open>broker.topics\<close> nor a string under
  \<open>broker.topic\<close>, \<open>connect\<close> logs the error and raises \<open>SystemExit(1)\<close>, exit status 1,
  having subscribed to nothing; as long as every attempt is refused it keeps running.
  With a list under \<open>broker.topics\<close>, a connected session subscribes to every topic of
  the list, in order, before anything else; otherwise, with a string under
  \<open>broker.topic\<close>, to that topic (the \<open>subscribe\<close> calls are taken to succeed: one that
  the broker fails is a transport error).
\<close>

theorem subscription_contract:
  fixes process :: "'m \<Rightarrow> py_error option"
  shows
  "((\<nexists>ts. topics (broker cfg) = Some (CList ts)) \<and> (\<nexists>t. topic (broker cfg) = Some (CStr t)) \<longrightarrow>
       (\<forall>rs sf msgs ending rest.
          connect cfg process (map Refused rs @ Accepted sf msgs ending # rest)
            = (Raised (SystemExit 1),
               Log INFO (''Connecting to MQTT broker at '' @ host (broker cfg) @ '':''
                         @ str_of_int (port (broker cfg)))
               # concat (map disconnected rs)
               @ [Log INFO (''Connected to MQTT broker at '' @ host (broker cfg) @ '':''
                            @ str_of_int (port (broker cfg))),
                  Log ERROR ''No MQTT topics to subscribe to defined in config broker.topics or broker.topic''])
          \<and> exit_status (fst (connect cfg process
                (map Refused rs @ Accepted sf msgs ending # rest))) = Some 1)
       \<and> (\<forall>rs. connect cfg process (map Refused rs)
            = (Running,
               Log INFO (''Connecting to MQTT broker at '' @ host (broker cfg) @ '':''
                         @ str_of_int (port (broker cfg)))
               # concat (map disconnected rs))))
   \<and> (\<forall>ts sf msgs ending.
         topics (broker cfg) = Some (CList ts) \<and> (\<forall>t \<in> set ts. sf t = None) \<longrightarrow>
         snd (session_body cfg process (Accepted sf msgs ending))
           = Log INFO (''Connected to MQTT broker at '' @ host (broker cfg) @ '':''
                       @ str_of_int (port (broker cfg)))
             # map Subscribe ts @ SetConnectTime # snd (stream_messages process msgs)
         \<and> (\<forall>rs rest. \<exists>suffix.
               snd (connect cfg process (map Refused rs @ Accepted sf msgs ending # rest))
                 = Log INFO (''Connecting to MQTT broker at '' @ host (broker cfg) @ '':''
                             @ str_of_int (port (broker cfg)))
                   # concat (map disconnected rs)
                   @ Log INFO (''Connected to MQTT broker at '' @ host (broker cfg) @ '':''
                               @ str_of_int (port (broker cfg)))
                   # map Subscribe ts @ SetConnectTime # suffix))
   \<and> (\<forall>t sf msgs ending.
         (\<nexists>ts. topics (broker cfg) = Some (CList ts)) \<and> topic (broker cfg) = Some (CStr t)
         \<and> sf t = None \<longrightarrow>
         snd (session_body cfg process (Accepted sf msgs ending))
           = Log INFO (''Connected to MQTT broker at '' @ host (broker cfg) @ '':''
                       @ str_of_int (port (broker cfg)))
             # Subscribe t # SetConnectTime # snd (stream_messages process msgs)
         \<and> (\<forall>rs rest. \<exists>suffix.
               snd (connect cfg process (map Refused rs @ Accepted sf msgs ending # rest))
                 = Log INFO (''Connecting to MQTT broker at '' @ host (broker cfg) @ '':''
                             @ str_of_int (port (broker cfg)))
                   # concat (map disconnected rs)
                   @ Log INFO (''Connected to MQTT broker at '' @ host (broker cfg) @ '':''
                               @ str_of_int (port (broker cfg)))
                   # Subscribe t # SetConnectTime # suffix))"
proof -
  let ?connecting = "Log INFO (''Connecting to MQTT broker at '' @ host (broker cfg) @ '':''
                         @ str_of_int (port (broker cfg))) :: 'm action"
  let ?connected = "Log INFO (''Connected to MQTT broker at '' @ host (broker cfg) @ '':''
                         @ str_of_int (port (broker cfg))) :: 'm action"
  have refused: "\<And>rs. connect cfg process (map Refused rs)
            = (Running, ?connecting # concat (map disconnected rs))"
    using connect_loop_refused[of cfg process _ "[]"] by (simp add: connect_def)
  have exits: "\<And>rs sf msgs ending rest.
      (\<nexists>ts. topics (broker cfg) = Some (CList ts)) \<and> (\<nexists>t. topic (broker cfg) = Some (CStr t)) \<Longrightarrow>
      connect cfg process (map Refused rs @ Accepted sf msgs ending # rest)
        = (Raised (SystemExit 1),
           ?connecting # concat (map disconnected rs)
           @ [?connected,
              Log ERROR ''No MQTT topics to subscribe to defined in config broker.topics or broker.topic''])"
  proof -
    fix rs sf msgs ending and rest :: "'m session list"
    assume a: "(\<nexists>ts. topics (broker cfg) = Some (CList ts))
               \<and> (\<nexists>t. topic (broker cfg) = Some (CStr t))"
    have "session_body cfg process (Accepted sf msgs ending)
       = (Some (SystemExit 1), [?connected,
              Log ERROR ''No MQTT topics to subscribe to defined in config broker.topics or broker.topic''])"
    proof -
      have "subscribe_configured (broker cfg) sf
         = (Some (SystemExit 1),
            [Log ERROR ''No MQTT topics to subscribe to defined in config broker.topics or broker.topic'']
              :: 'm action list)"
        using a by (auto simp: subscribe_configured_def split: option.splits cfg_value.splits)
      then show ?thesis by (simp add: session_body_def Let_def)
    qed
    then show "connect cfg process (map Refused rs @ Accepted sf msgs ending # rest)
        = (Raised (SystemExit 1),
           ?connecting # concat (map disconnected rs)
           @ [?connected,
              Log ERROR ''No MQTT topics to subscribe to defined in config broker.topics or broker.topic''])"
      by (simp add: connect_def connect_loop_refused)
  qed
  have prefix: "\<And>rs sf msgs ending rest subs.
      subscribe_configured (broker cfg) sf = (None, subs :: 'm action list) \<Longrightarrow>
      \<exists>suffix. snd (connect cfg process (map Refused rs @ Accepted sf msgs ending # rest))
        = ?connecting # concat (map disconnected rs) @ ?connected # subs @ SetConnectTime # suffix"
  proof -
    fix rs sf msgs ending and rest :: "'m session list" and subs :: "'m action list"
    assume s: "subscribe_configured (broker cfg) sf = (None, subs)"
    from connect_loop_head[of cfg process "Accepted sf msgs ending" rest
           "?connecting # concat (map disconnected rs)"]
    obtain suffix where "snd (connect_loop cfg process (Accepted sf msgs ending # rest)
         (?connecting # concat (map disconnected rs)))
       = (?connecting # concat (map disconnected rs))
         @ snd (session_body cfg process (Accepted sf msgs ending)) @ suffix"
      by blast
    then have "snd (connect cfg process (map Refused rs @ Accepted sf msgs ending # rest))
        = ?connecting # concat (map disconnected rs) @ ?connected # subs @ SetConnectTime
          # (snd (stream_messages process msgs) @ suffix)"
      by (simp add: connect_def connect_loop_refused session_subscribed[OF s])
    then show "\<exists>suffix. snd (connect cfg process (map Refused rs @ Accepted sf msgs ending # rest))
        = ?connecting # concat (map disconnected rs) @ ?connected # subs @ SetConnectTime # suffix"
      by blast
  qed
  have lst: "\<And>ts sf. topics (broker cfg) = Some (CList ts) \<and> (\<forall>t \<in> set ts. sf t = None) \<Longrightarrow>
      subscribe_configured (broker cfg) sf = (None, map Subscribe ts :: 'm action list)"
    by (simp add: subscribe_configured_def subscribe_all_ok)
  have one: "\<And>t sf. (\<nexists>ts. topics (broker cfg) = Some (CList ts)) \<and> topic (broker cfg) = Some (CStr t)
         \<and> sf t = None \<Longrightarrow>
      subscribe_configured (broker cfg) sf = (None, [Subscribe t] :: 'm action list)"
    by (auto simp: subscribe_configured_def split: option.splits cfg_value.splits)
  show ?thesis
  proof (intro conjI impI allI)
    fix rs sf msgs ending and rest :: "'m session list"
    assume a: "(\<nexists>ts. topics (broker cfg) = Some (CList ts))
               \<and> (\<nexists>t. topic (broker cfg) = Some (CStr t))"
    from exits[OF a, of rs sf msgs ending rest]
    show "connect cfg process (map Refused rs @ Accepted sf msgs ending # rest)
        = (Raised (SystemExit 1),
           ?connecting # concat (map disconnected rs)
           @ [?connected,
              Log ERROR ''No MQTT topics to subscribe to defined in config broker.topics or broker.topic''])"
      and "exit_status (fst (connect cfg process
                (map Refused rs @ Accepted sf msgs ending # rest))) = Some 1"
      by simp_all
  next
    fix rs
    show "connect cfg process (map Refused rs)
            = (Running, ?connecting # concat (map disconnected rs))"
      by (rule refused)
  next
    fix ts and sf :: "string \<Rightarrow> string option" and msgs ending
    assume a: "topics (broker cfg) = Some (CList ts) \<and> (\<forall>t \<in> set ts. sf t = None)"
    show "snd (session_body cfg process (Accepted sf msgs ending))
           = ?connected # map Subscribe ts @ SetConnectTime # snd (stream_messages process msgs)"
      by (rule session_subscribed[OF lst[of ts sf, OF a]])
  next
    fix ts and sf :: "string \<Rightarrow> string option" and msgs ending rs
      and rest :: "'m session list"
    assume a: "topics (broker cfg) = Some (CList ts) \<and> (\<forall>t \<in> set ts. sf t = None)"
    show "\<exists>suffix.
               snd (connect cfg process (map Refused rs @ Accepted sf msgs ending # rest))
                 = ?connecting # concat (map disconnected rs)
                   @ ?connected # map Subscribe ts @ SetConnectTime # suffix"
      by (rule prefix[OF lst[of ts sf, OF a]])
  next
    fix t and sf :: "string \<Rightarrow> string option" and msgs ending
    assume a: "(\<nexists>ts. topics (broker cfg) = Some (CList ts)) \<and> topic (broker cfg) = Some (CStr t)
         \<and> sf t = None"
    show "snd (session_body cfg process (Accepted sf msgs ending))
           = ?connected # Subscribe t # SetConnectTime # snd (stream_messages process msgs)"
      using session_subscribed[OF one[of t sf, OF a], of process msgs ending] by simp
  next
    fix t and sf :: "string \<Rightarrow> string option" and msgs ending rs
      and rest :: "'m session list"
    assume a: "(\<nexists>ts. topics (broker cfg) = Some (CList ts)) \<and> topic (broker cfg) = Some (CStr t)
         \<and> sf t = None"
    show "\<exists>suffix.
               snd (connect cfg process (map Refused rs @ Accepted sf msgs ending # rest))
                 = ?connecting # concat (map disconnected rs)
                   @ ?connected # Subscribe t # SetConnectTime # suffix"
      using prefix[OF one[of t sf, OF a], of rs msgs ending rest] by simp
  qed
qed

theorem subscription_contract_witness:
  "connect example_config (\<lambda>_::string. None)
       [Refused ''unreachable'', Accepted (\<lambda>_. None) [''m1''] None]
     = (Raised (SystemExit 1),
        [Log INFO ''Connecting to MQTT broker at localhost:1883'',
         Log INFO (''Disconnected from MQTT broker: unreachable'' @ [CHR 0x0A] @ ''Reconnecting...''),
         Sleep 5,
         Log INFO ''Connected to MQTT broker at localhost:1883'',
         Log ERROR ''No MQTT topics to subscribe to defined in config broker.topics or broker.topic''])
   \<and> exit_status (fst (connect example_config (\<lambda>_::string. None)
       [Refused ''unreachable'', Accepted (\<lambda>_. None) [''m1''] None])) = Some 1
   \<and> snd (session_body topics_config (\<lambda>_::string. None)
            (Accepted (\<lambda>_. None) [''m1''] (Some ''connection lost'')))
        = [Log INFO ''Connected to MQTT broker at localhost:1883'',
           Subscribe ''msh/a'', Subscribe ''msh/b'', SetConnectTime, Process ''m1'']
   \<and> snd (session_body topic_config (\<lambda>_::string. None)
            (Accepted (\<lambda>_. None) [''m1''] (Some ''connection lost'')))
        = [Log INFO ''Connected to MQTT broker at localhost:1883'',
           Subscribe ''msh/#'', SetConnectTime, Process ''m1'']"
proof -
  have port: "str_of_int 1883 = ''1883''" by code_simp
  have none: "(\<nexists>ts. topics (broker example_config) = Some (CList ts))
      \<and> (\<nexists>t. topic (broker example_config) = Some (CStr t))"
    by (simp add: example_config_def)
  have hp: "host (broker example_config) = ''localhost''" "port (broker example_config) = 1883"
    "host (broker topics_config) = ''localhost''" "port (broker topics_config) = 1883"
    "host (broker topic_config) = ''localhost''" "port (broker topic_config) = 1883"
    by (simp_all add: example_config_def topics_config_def topic_config_def)
  note t0 = subscription_contract[of example_config "\<lambda>_::string. None",
              THEN conjunct1, THEN mp, OF none, THEN conjunct1, rule_format, THEN conjunct1,
              of "[''unreachable'']" "\<lambda>_. None" "[''m1'']" None "[]"]
  have a: "connect example_config (\<lambda>_::string. None)
       [Refused ''unreachable'', Accepted (\<lambda>_. None) [''m1''] None]
     = (Raised (SystemExit 1),
        [Log INFO ''Connecting to MQTT broker at localhost:1883'',
         Log INFO (''Disconnected from MQTT broker: unreachable'' @ [CHR 0x0A] @ ''Reconnecting...''),
         Sleep 5,
         Log INFO ''Connected to MQTT broker at localhost:1883'',
         Log ERROR ''No MQTT topics to subscribe to defined in config broker.topics or broker.topic''])"
    using t0 by (simp add: hp port disconnected_def)
  have lst: "topics (broker topics_config) = Some (CList [''msh/a'', ''msh/b''])
      \<and> (\<forall>t \<in> set [''msh/a'', ''msh/b'']. (\<lambda>_::string. None :: string option) t = None)"
    by (simp add: topics_config_def example_config_def)
  note t1 = subscription_contract[of topics_config "\<lambda>_::string. None",
              THEN conjunct2, THEN conjunct1, THEN spec, THEN spec, THEN spec, THEN spec,
              THEN mp, OF lst, THEN conjunct1, of "[''m1'']" "Some ''connection lost''"]
  have b: "snd (session_body topics_config (\<lambda>_::string. None)
            (Accepted (\<lambda>_. None) [''m1''] (Some ''connection lost'')))
        = [Log INFO ''Connected to MQTT broker at localhost:1883'',
           Subscribe ''msh/a'', Subscribe ''msh/b'', SetConnectTime, Process ''m1'']"
    using t1 by (simp add: hp port)
  have one: "(\<nexists>ts. topics (broker topic_config) = Some (CList ts))
      \<and> topic (broker topic_config) = Some (CStr ''msh/#'')
      \<and> (\<lambda>_::string. None :: string option) ''msh/#'' = None"
    by (simp add: topic_config_def example_config_def)
  note t2 = subscription_contract[of topic_config "\<lambda>_::string. None",
              THEN conjunct2, THEN conjunct2, THEN spec, THEN spec, THEN spec, THEN spec,
              THEN mp, OF one, THEN conjunct1, of "[''m1'']" "Some ''connection lost''"]
  have c: "snd (session_body topic_config (\<lambda>_::string. None)
            (Accepted (\<lambda>_. None) [''m1''] (Some ''connection lost'')))
        = [Log INFO ''Connected to MQTT broker at localhost:1883'',
           Subscribe ''msh/#'', SetConnectTime, Process ''m1'']"
    using t2 by (simp add: hp port)
  show ?thesis using a b c by simp
qed

lemma subscribe_all_no_sleep: "Sleep n \<notin> set (snd (subscribe_all sf ts))"
  by (induction ts) (auto split: option.splits prod.splits)

lemma stream_no_sleep: "Sleep n \<notin> set (snd (stream_messages process msgs))"
  by (induction msgs) (auto split: option.splits prod.splits)

lemma subscribe_configured_no_sleep: "Sleep n \<notin> set (snd (subscribe_configured b sf))"
  using subscribe_all_no_sleep[of n sf]
  by (auto simp: subscribe_configured_def split: option.splits cfg_value.splits)

lemma session_no_sleep:
  fixes s :: "'m session"
  shows "Sleep n \<notin> set (snd (session_body cfg process s))"
proof (cases s)
  case (Refused m) then show ?thesis by (simp add: session_body_def)
next
  case (Accepted sf msgs ending)
  have a: "Sleep n \<notin> set (snd (subscribe_configured (broker cfg) sf
                                       :: py_error option \<times> 'm action list))"
    by (rule subscribe_configured_no_sleep)
  have b: "Sleep n \<notin> set (snd (stream_messages process msgs))"
    by (rule stream_no_sleep)
  show ?thesis using a b Accepted
    by (auto simp: session_body_def Let_def split: option.splits prod.splits)
qed

lemma sleeps_disconnected: "filter (\<lambda>a. a = Sleep 5) (disconnected m) = [Sleep 5]"
  by (simp add: disconnected_def)

lemma connect_loop_all_transport:
  assumes "\<forall>s \<in> set ss. \<exists>m acts. session_body cfg process s = (Some (MqttError m), acts)"
  shows "fst (connect_loop cfg process ss tr) = Running
     \<and> length (filter (\<lambda>a. a = Sleep 5) (snd (connect_loop cfg process ss tr)))
         = length (filter (\<lambda>a. a = Sleep 5) tr) + length ss"
  using assms
proof (induction ss arbitrary: tr)
  case Nil then show ?case by simp
next
  case (Cons s ss)
  then obtain m acts where b: "session_body cfg process s = (Some (MqttError m), acts)" by auto
  have "Sleep 5 \<notin> set acts" using session_no_sleep[of 5 cfg process s] b by simp
  then have f: "filter (\<lambda>a. a = Sleep 5) acts = []" by (auto simp: filter_empty_conv)
  show ?case using Cons b f by (simp add: sleeps_disconnected)
qed

lemma connect_loop_raised:
  "fst (connect_loop cfg process ss tr) = Raised e \<Longrightarrow> e \<noteq> MqttError m"
  by (induction ss arbitrary: tr) (auto split: prod.splits option.splits py_error.splits)

text \<open>
  C9. A pass of the loop that ends in \<open>MqttError\<close>, whether raised while connecting
  (a refused session) or while subscribing or streaming, appends the "Disconnected"
  log entry and \<open>sleep(5)\<close> and goes on with the next connection attempt. A script of
  any length whose sessions all end in transport errors leaves the loop running, with
  one \<open>sleep(5)\<close> per session; and whatever the script, the exception that ends
  \<open>connect\<close>, if one does, is never an \<open>MqttError\<close>.
\<close>

theorem transport_errors_are_retried:
  fixes process :: "'m \<Rightarrow> py_error option"
  shows
  "(\<forall>s acts m ss tr. session_body cfg process s = (Some (MqttError m), acts) \<longrightarrow>
       connect_loop cfg process (s # ss) tr
         = connect_loop cfg process ss
             (tr @ acts @ [Log INFO (''Disconnected from MQTT broker: '' @ m @ [CHR 0x0A]
                                     @ ''Reconnecting...''), Sleep 5]))
   \<and> (\<forall>m. session_body cfg process (Refused m) = (Some (MqttError m), []))
   \<and> (\<forall>sf msgs m acts.
          subscribe_configured (broker cfg) sf = (None, acts :: 'm action list)
          \<and> (\<forall>msg \<in> set msgs. process msg = None) \<longrightarrow>
        fst (session_body cfg process (Accepted sf msgs (Some m))) = Some (MqttError m))
   \<and> (\<forall>ss. (\<forall>s \<in> set ss. \<exists>m acts. session_body cfg process s = (Some (MqttError m), acts)) \<longrightarrow>
          fst (connect cfg process ss) = Running
          \<and> length (filter (\<lambda>a. a = Sleep 5) (snd (connect cfg process ss))) = length ss)
   \<and> (\<forall>ss e m. fst (connect cfg process ss) = Raised e \<longrightarrow> e \<noteq> MqttError m)"
proof (intro conjI allI impI)
  fix s acts m ss tr
  assume "session_body cfg process s = (Some (MqttError m), acts)"
  then show "connect_loop cfg process (s # ss) tr
         = connect_loop cfg process ss
             (tr @ acts @ [Log INFO (''Disconnected from MQTT broker: '' @ m @ [CHR 0x0A]
                                     @ ''Reconnecting...''), Sleep 5])"
    by (simp add: disconnected_def)
next
  fix m show "session_body cfg process (Refused m) = (Some (MqttError m), [])"
    by (simp add: session_body_def)
next
  fix sf msgs m acts
  assume a: "subscribe_configured (broker cfg) sf = (None, acts :: 'm action list)
      \<and> (\<forall>msg \<in> set msgs. process msg = None)"
  have "fst (stream_messages process msgs) = None"
    using a by (induction msgs) (auto split: prod.splits)
  then show "fst (session_body cfg process (Accepted sf msgs (Some m))) = Some (MqttError m)"
    using a by (auto simp: session_body_def Let_def split: prod.splits option.splits)
next
  fix ss :: "'m session list"
  assume a: "\<forall>s \<in> set ss. \<exists>m acts. session_body cfg process s = (Some (MqttError m), acts)"
  from connect_loop_all_transport[OF a]
  show "fst (connect cfg process ss) = Running"
    and "length (filter (\<lambda>a. a = Sleep 5) (snd (connect cfg process ss))) = length ss"
    by (simp_all add: connect_def)
next
  fix ss e m
  assume "fst (connect cfg process ss) = Raised e"
  then show "e \<noteq> MqttError m"
    by (simp add: connect_def connect_loop_raised)
qed

theorem transport_errors_are_retried_witness:
  "connect topic_config (\<lambda>_::string. None)
       [Refused ''unreachable'', Accepted (\<lambda>_. None) [''m1''] (Some ''connection lost'')]
   = (Running,
      [Log INFO ''Connecting to MQTT broker at localhost:1883'',
       Log INFO (''Disconnected from MQTT broker: unreachable'' @ [CHR 0x0A] @ ''Reconnecting...''),
       Sleep 5,
       Log INFO ''Connected to MQTT broker at localhost:1883'',
       Subscribe ''msh/#'', SetConnectTime, Process ''m1'',
       Log INFO (''Disconnected from MQTT broker: connection lost'' @ [CHR 0x0A] @ ''Reconnecting...''),
       Sleep 5])"
proof -
  let ?ss = "[Refused ''unreachable'', Accepted (\<lambda>_. None) [''m1''] (Some ''connection lost'')]
               :: string session list"
  have port: "str_of_int 1883 = ''1883''" by code_simp
  have sub: "subscribe_configured (broker topic_config) (\<lambda>_. None)
               = (None, [Subscribe ''msh/#''] :: string action list)"
    by (simp add: subscribe_configured_def topic_config_def example_config_def)
  have b1: "session_body topic_config (\<lambda>_::string. None) (Refused ''unreachable'')
              = (Some (MqttError ''unreachable''), [])"
    by (simp add: session_body_def)
  have b2: "session_body topic_config (\<lambda>_::string. None)
              (Accepted (\<lambda>_. None) [''m1''] (Some ''connection lost''))
              = (Some (MqttError ''connection lost''),
                 [Log INFO ''Connected to MQTT broker at localhost:1883'',
                  Subscribe ''msh/#'', SetConnectTime, Process ''m1''])"
    using sub port by (simp add: session_body_def topic_config_def example_config_def)
  have all: "\<forall>s \<in> set ?ss. \<exists>m acts.
      session_body topic_config (\<lambda>_::string. None) s = (Some (MqttError m), acts)"
    using b1 b2 by simp
  note t = transport_errors_are_retried[of topic_config "\<lambda>_::string. None"]
  have running: "fst (connect topic_config (\<lambda>_::string. None) ?ss) = Running"
    using t all by blast
  have tr: "snd (connect topic_config (\<lambda>_::string. None) ?ss)
     = [Log INFO ''Connecting to MQTT broker at localhost:1883'',
       Log INFO (''Disconnected from MQTT broker: unreachable'' @ [CHR 0x0A] @ ''Reconnecting...''),
       Sleep 5,
       Log INFO ''Connected to MQTT broker at localhost:1883'',
       Subscribe ''msh/#'', SetConnectTime, Process ''m1'',
       Log INFO (''Disconnected from MQTT broker: connection lost'' @ [CHR 0x0A] @ ''Reconnecting...''),
       Sleep 5]"
    using b1 b2 port
    by (simp add: connect_def disconnected_def topic_config_def example_config_def)
  show ?thesis using running tr by (simp add: prod_eq_iff)
qed

section \<open>Page rendering: one failing builder does not stop the others\<close>


lemma dict_getitem_KeyError: "dict_getitem d k = Inl e \<Longrightarrow> e = KeyError k"
  by (induction d) (auto split: if_splits)

lemma dict_getitem_contains: "dict_contains k d \<longleftrightarrow> (\<exists>v. dict_getitem d k = Inr v)"
  by (induction d) (auto simp: dict_contains_def)





















section \<open>Node serialization: the distance fields\<close>




text \<open>
  C6. The specification says that the distance to a neighbor is omitted whenever either endpoint's
  coordinates are zero, as for the distance from the host. The neighbor loop tests that
  the positions and their keys are present (line 283) and never compares a coordinate
  with zero: for a node at latitude 0 and longitude 0 the neighbor entry carries a
  distance, while the rule of \<open>_serialize_node\<close> yields none for the same two endpoints.
\<close>

theorem neighbor_distance_not_suppressed:
  "serialize_neighborinfo_neighbors example_externals (nodes mesh_store) nofix_node
     = Inr [\<lparr>sn_node_id = ''00000001'', sn_snr = JInt 5, sn_distance = Some 37\<rparr>]
   \<and> position nofix_node = Value [(''latitude_i'', 0), (''longitude_i'', 0)]
   \<and> \<not> has_fix (position nofix_node)
   \<and> host_distance example_externals nofix_node
        (Some [(''latitude_i'', 13), (''longitude_i'', 24)]) = None"
  by (simp add: serialize_neighborinfo_neighbors_def serialize_neighbor_def dict_contains_def
      host_distance_def has_fix_def mesh_store_def empty_store_def host_node_def far_node_def
      nofix_node_def example_externals_def Let_def)

section \<open>Active-node views\<close>

text \<open>
  C7. The specification says that a node is in the \<open>active_nodes\<close> collection handed to a page builder
  only if its active flag is true. \<open>render_nodes\<close> filters on the flag, but
  \<open>render_index\<close> and \<open>render_routes\<close> pass the whole node collection as
  \<open>active_nodes\<close>: a node whose flag is false is in it.
\<close>

theorem index_active_nodes_unfiltered:
  "dict_getitem (render_index_kwargs mesh_store :: (string \<times> (unit, int) kwarg) list)
      ''active_nodes'' = Inr (KNodes (nodes mesh_store))
   \<and> dict_getitem (render_routes_kwargs mesh_store :: (string \<times> (unit, int) kwarg) list)
      ''active_nodes'' = Inr (KNodes (nodes mesh_store))
   \<and> dict_getitem (nodes mesh_store) ''00000001'' = Inr far_node
   \<and> active far_node = Some False"
  by (simp add: render_index_kwargs_def render_routes_kwargs_def mesh_store_def empty_store_def
      far_node_def)

text \<open>
  The builder that does filter: every key of the \<open>active_nodes\<close> dict of \<open>render_nodes\<close>
  is the id of a node whose active flag is true.
\<close>

lemma active_nodes_loop_only_active:
  assumes "active_nodes_loop ext cfg nds ct out items = Inr res" "dict_contains k res"
  shows "dict_contains k out \<or> (\<exists>nd. (k, nd) \<in> set items \<and> active nd = Some True)"
  using assms
proof (induction items arbitrary: out)
  case Nil then show ?case by simp
next
  case (Cons a items)
  obtain id0 nd where a: "a = (id0, nd)" by (cases a)
  show ?case
  proof (cases "active nd = Some True")
    case False
    then show ?thesis using Cons a by auto
  next
    case True
    then obtain v where v: "serialize_node ext cfg nds nd (Some ct) True = Inr v"
      and rest: "active_nodes_loop ext cfg nds ct (dict_setitem id0 v out) items = Inr res"
      using Cons.prems(1) a by (auto split: sum.splits)
    from Cons.IH[OF rest Cons.prems(2)] True a show ?thesis
      by (auto simp: dict_contains_setitem)
  qed
qed

section \<open>A Store without the server node\<close>

text \<open>
  C10, as stated: whenever the configured server id is not a key of the node collection,
  the per-node, node-list, neighbors and map pages all fail. This is false: with the
  server node missing and the only node of the Store inactive, \<open>render_nodes\<close> and
  \<open>render_neighbors\<close> serialize no node and return normally.
\<close>

theorem inactive_nodes_render_without_server_node:
  "\<not> dict_contains (server_node_id example_config) (nodes quiet_store)
   \<and> fst (render_nodes reliable_io plain_template example_externals example_config quiet_store
            old_world) = Inr ()
   \<and> fst (render_neighbors reliable_io plain_template example_externals example_config quiet_store
            old_world) = Inr ()"
  by (simp add: dict_contains_def render_nodes_def render_neighbors_def quiet_store_def
      empty_store_def far_node_def example_config_def render_html_and_save_def render_html_def bind_def StaticHTMLRenderer_save_file_def
      plain_template_def reliable_io_def Let_def startswith_def)

lemma serialize_node_no_server:
  assumes "\<not> dict_contains (server_node_id cfg) nds"
  shows "\<exists>e. serialize_node ext cfg nds nd ct simplified = Inl e"
proof -
  have "\<And>v. dict_getitem nds (server_node_id cfg) \<noteq> Inr v"
    using assms by (simp add: dict_getitem_contains)
  then show ?thesis
    by (auto simp: serialize_node_def Let_def
        split: sum.splits timestamp.splits datetime.splits option.splits if_splits)
qed

lemma getitem_no_server:
  assumes "\<not> dict_contains k d"
  shows "dict_getitem d k = Inl (KeyError k)"
  using assms by (induction d) (auto simp: dict_contains_def)

lemma serialize_node_no_server_KeyError:
  assumes "\<not> dict_contains (server_node_id cfg) nds"
    and "last_seen nd = Datetime (Aware t)" "position nd \<noteq> Missing" "neighborinfo nd = PyNone"
  shows "serialize_node ext cfg nds nd ct simplified = Inl (KeyError (server_node_id cfg))"
  using assms(2-4) getitem_no_server[OF assms(1)]
  by (cases "position nd") (auto simp: serialize_node_def Let_def)

lemma active_nodes_loop_fails:
  assumes "\<not> dict_contains (server_node_id cfg) nds"
    and "\<exists>(i, nd) \<in> set items. active nd = Some True"
  shows "\<exists>e. active_nodes_loop ext cfg nds ct out items = Inl e"
  using assms(2)
proof (induction items arbitrary: out)
  case Nil then show ?case by simp
next
  case (Cons a items)
  obtain i nd where a: "a = (i, nd)" by (cases a)
  show ?case
  proof (cases "active nd = Some True")
    case True
    then show ?thesis
      using serialize_node_no_server[OF assms(1), of ext nd "Some ct" True] a by auto
  next
    case False
    then have "\<exists>(i, nd) \<in> set items. active nd = Some True" using Cons.prems a by auto
    then show ?thesis using Cons.IH False a by simp
  qed
qed

lemma active_nodes_loop_skips:
  "\<forall>(i, nd) \<in> set items. active nd \<noteq> Some True \<Longrightarrow>
     active_nodes_loop ext cfg nds ct out items = Inr out"
  by (induction items arbitrary: out) auto

lemma loop_cond: "(active nd = Some True \<and> has_key (neighborinfo nd)
         \<and> (case neighborinfo nd of Value ni \<Rightarrow> truthy_neighborinfo (Some ni) | _ \<Rightarrow> False))
    = has_neighbors nd"
  by (cases "neighborinfo nd") (auto simp: has_neighbors_def)

lemma active_nodes_with_neighbors_loop_fails:
  assumes "\<not> dict_contains (server_node_id cfg) nds"
    and "\<exists>(i, nd) \<in> set items. has_neighbors nd"
  shows "\<exists>e. active_nodes_with_neighbors_loop ext cfg nds out items = Inl e"
  using assms(2)
proof (induction items arbitrary: out)
  case Nil then show ?case by simp
next
  case (Cons a items)
  obtain i nd where a: "a = (i, nd)" by (cases a)
  show ?case
  proof (cases "has_neighbors nd")
    case True
    then show ?thesis
      using serialize_node_no_server[OF assms(1), of ext nd None True] a
      by (auto simp: loop_cond)
  next
    case False
    then have "\<exists>(i, nd) \<in> set items. has_neighbors nd" using Cons.prems a by auto
    then show ?thesis using Cons.IH False a by (simp add: loop_cond)
  qed
qed

lemma active_nodes_with_neighbors_loop_skips:
  "\<forall>(i, nd) \<in> set items. \<not> has_neighbors nd \<Longrightarrow>
     active_nodes_with_neighbors_loop ext cfg nds out items = Inr out"
  by (induction items arbitrary: out) (auto simp: loop_cond)

lemma render_nodes_each_fails:
  assumes "\<not> dict_contains (server_node_id cfg) nds" "items \<noteq> []"
  shows "\<exists>e. render_nodes_each_loop env tpl ext cfg nds items w = (Inl e, w)"
proof -
  obtain i nd rest where "items = (i, nd) # rest" using assms(2) by (cases items) auto
  then show ?thesis
    using serialize_node_no_server[OF assms(1), of ext nd None False] by auto
qed

text \<open>
  C10, amended. When the configured server id is not a key of the node collection:
  \<open>_serialize_node\<close> raises for every node (the \<open>KeyError\<close> of the server lookup, unless
  an earlier step of the serialization has raised already); \<open>render_map\<close> raises that
  \<open>KeyError\<close> in every pass; \<open>render_nodes_each\<close> raises exactly when the Store holds a
  node; \<open>render_nodes\<close> raises when some node is active, and otherwise goes on to render
  the page with an empty \<open>active_nodes\<close>; \<open>render_neighbors\<close> raises when some node is
  active with a non-empty neighborinfo, and otherwise goes on to render its page.
\<close>

theorem missing_server_node_failures:
  fixes data :: "('a node, 'a json) store" and ext :: "'f externals"
  assumes "\<not> dict_contains (server_node_id cfg) (nodes data)"
  shows "(\<forall>nd ct simplified. \<exists>e. serialize_node ext cfg (nodes data) nd ct simplified = Inl e)
    \<and> (\<forall>nd ct simplified t.
          last_seen nd = Datetime (Aware t) \<and> position nd \<noteq> Missing \<and> neighborinfo nd = PyNone \<longrightarrow>
          serialize_node ext cfg (nodes data) nd ct simplified
            = Inl (KeyError (server_node_id cfg)))
    \<and> render_map env tpl ext cfg data w = (Inl (KeyError (server_node_id cfg)), w)
    \<and> (nodes data \<noteq> [] \<longrightarrow> (\<exists>e. render_nodes_each env tpl ext cfg data w = (Inl e, w)))
    \<and> (nodes data = [] \<longrightarrow> render_nodes_each env tpl ext cfg data w = (Inr (), w))
    \<and> ((\<exists>(i, nd) \<in> set (nodes data). active nd = Some True) \<longrightarrow>
          (\<exists>e. render_nodes env tpl ext cfg data w = (Inl e, w)))
    \<and> ((\<forall>(i, nd) \<in> set (nodes data). active nd \<noteq> Some True) \<longrightarrow>
          render_nodes env tpl ext cfg data w
            = render_html_and_save env tpl ext cfg ''nodes.html''
                [(''nodes'', KNodes (nodes data)), (''active_nodes'', KSerialized []),
                 (''hardware'', KModule ''meshtastic_support.HardwareModel''),
                 (''meshtastic_support'', KModule ''meshtastic_support'')] w)
    \<and> ((\<exists>(i, nd) \<in> set (nodes data). has_neighbors nd) \<longrightarrow>
          (\<exists>e. render_neighbors env tpl ext cfg data w = (Inl e, w)))
    \<and> ((\<forall>(i, nd) \<in> set (nodes data). \<not> has_neighbors nd) \<longrightarrow>
          render_neighbors env tpl ext cfg data w
            = render_html_and_save env tpl ext cfg ''neighbors.html''
                [(''nodes'', KNodes (nodes data)), (''active_nodes_with_neighbors'', KSerialized []),
                 (''geo'', KModule ''geo'')] w)"
proof (intro conjI allI impI)
  fix nd ct simplified
  show "\<exists>e. serialize_node ext cfg (nodes data) nd ct simplified = Inl e"
    by (rule serialize_node_no_server[OF assms])
next
  fix nd :: "'a node" and ct simplified t
  assume "last_seen nd = Datetime (Aware t) \<and> position nd \<noteq> Missing \<and> neighborinfo nd = PyNone"
  then show "serialize_node ext cfg (nodes data) nd ct simplified
            = Inl (KeyError (server_node_id cfg))"
    using serialize_node_no_server_KeyError[OF assms] by blast
next
  show "render_map env tpl ext cfg data w = (Inl (KeyError (server_node_id cfg)), w)"
    by (simp add: render_map_def getitem_no_server[OF assms])
next
  assume "nodes data \<noteq> []"
  then show "\<exists>e. render_nodes_each env tpl ext cfg data w = (Inl e, w)"
    using render_nodes_each_fails[OF assms] by (simp add: render_nodes_each_def)
next
  assume "nodes data = []"
  then show "render_nodes_each env tpl ext cfg data w = (Inr (), w)"
    by (simp add: render_nodes_each_def)
next
  assume "\<exists>(i, nd) \<in> set (nodes data). active nd = Some True"
  from active_nodes_loop_fails[OF assms this, of ext "now ext" "[]"]
  show "\<exists>e. render_nodes env tpl ext cfg data w = (Inl e, w)"
    by (auto simp: render_nodes_def)
next
  assume "\<forall>(i, nd) \<in> set (nodes data). active nd \<noteq> Some True"
  from active_nodes_loop_skips[OF this, of ext cfg "nodes data" "now ext" "[]"]
  show "render_nodes env tpl ext cfg data w
            = render_html_and_save env tpl ext cfg ''nodes.html''
                [(''nodes'', KNodes (nodes data)), (''active_nodes'', KSerialized []),
                 (''hardware'', KModule ''meshtastic_support.HardwareModel''),
                 (''meshtastic_support'', KModule ''meshtastic_support'')] w"
    by (simp add: render_nodes_def)
next
  assume "\<exists>(i, nd) \<in> set (nodes data). has_neighbors nd"
  from active_nodes_with_neighbors_loop_fails[OF assms this, of ext "[]"]
  show "\<exists>e. render_neighbors env tpl ext cfg data w = (Inl e, w)"
    by (auto simp: render_neighbors_def)
next
  assume "\<forall>(i, nd) \<in> set (nodes data). \<not> has_neighbors nd"
  from active_nodes_with_neighbors_loop_skips[OF this, of ext cfg "nodes data" "[]"]
  show "render_neighbors env tpl ext cfg data w
            = render_html_and_save env tpl ext cfg ''neighbors.html''
                [(''nodes'', KNodes (nodes data)), (''active_nodes_with_neighbors'', KSerialized []),
                 (''geo'', KModule ''geo'')] w"
    by (simp add: render_neighbors_def)
qed

theorem missing_server_node_failures_witness:
  "render_map reliable_io plain_template example_externals example_config lost_store old_world
     = (Inl (KeyError ''aaaaaaaa''), old_world)
   \<and> (\<exists>e. render_nodes_each reliable_io plain_template example_externals example_config
            lost_store old_world = (Inl e, old_world))
   \<and> (\<exists>e. render_nodes reliable_io plain_template example_externals example_config
            lost_store old_world = (Inl e, old_world))
   \<and> (\<exists>e. render_neighbors reliable_io plain_template example_externals example_config
            lost_store old_world = (Inl e, old_world))"
proof -
  have absent: "\<not> dict_contains (server_node_id example_config) (nodes lost_store)"
    by (simp add: dict_contains_def lost_store_def empty_store_def example_config_def)
  have srv: "server_node_id example_config = ''aaaaaaaa''"
    by (simp add: example_config_def)
  have some: "nodes lost_store \<noteq> []"
    by (simp add: lost_store_def empty_store_def)
  have act: "\<exists>(i, nd) \<in> set (nodes lost_store). active nd = Some True"
    by (simp add: lost_store_def empty_store_def nofix_node_def)
  have nb: "\<exists>(i, nd) \<in> set (nodes lost_store). has_neighbors nd"
    by (simp add: lost_store_def empty_store_def nofix_node_def has_neighbors_def)
  note t = missing_server_node_failures[OF absent, of example_externals reliable_io
             plain_template old_world]
  from t srv have "render_map reliable_io plain_template example_externals example_config
      lost_store old_world = (Inl (KeyError ''aaaaaaaa''), old_world)"
    by simp
  moreover from t some have "\<exists>e. render_nodes_each reliable_io plain_template
      example_externals example_config lost_store old_world = (Inl e, old_world)"
    by blast
  moreover from t act have "\<exists>e. render_nodes reliable_io plain_template
      example_externals example_config lost_store old_world = (Inl e, old_world)"
    by blast
  moreover from t nb have "\<exists>e. render_neighbors reliable_io plain_template
      example_externals example_config lost_store old_world = (Inl e, old_world)"
    by blast
  ultimately show ?thesis by simp
qed

end
